theory Spec2Isabelle
  imports Main "HOL-Library.Word"
begin

unbundle bit_operations_syntax

section \<open>Data model of package webauthn\<close>

type_synonym byte = "8 word"
type_synonym bytes = "byte list"

text \<open>Go's \<open>type Algorithm int\<close>. The constants are the COSE identifiers of the source.\<close>

type_synonym Algorithm = int

definition ES256 :: Algorithm where "ES256 = -7"
definition ES384 :: Algorithm where "ES384 = -35"
definition ES512 :: Algorithm where "ES512 = -36"
definition EdDSA :: Algorithm where "EdDSA = -8"
definition RS256 :: Algorithm where "RS256 = -257"
definition RS384 :: Algorithm where "RS384 = -258"
definition RS512 :: Algorithm where "RS512 = -259"

text \<open>
  Every \<open>return nil, fmt.Errorf(...)\<close> of the source is one constructor, named after its
  message. The three wrapping sites (\<open>"parsing attestation object: %v"\<close>,
  \<open>"parsing authenticator data: %v"\<close>, \<open>"invalid signature: %v"\<close>) carry the wrapped
  error. \<open>Go_panic\<close> is a run-time panic of the Go program (nil dereference, or a library
  function that panics on its argument).
\<close>

datatype error =
    Err_parsing_client_data
  | Err_invalid_client_data_type
  | Err_invalid_client_data_origin
  | Err_invalid_client_data_challenge
  | Err_parsing_attestation_object error
  | Err_parsing_authenticator_data error
  | Err_invalid_signature error
  | Err_not_enough_bytes_for_rpid_hash
  | Err_assertion_issued_for_different_relying_party
  | Err_authenticator_data_doesnt_match_relying_party_ID
  | Err_not_enough_bytes_for_flag
  | Err_not_enough_bytes_for_counter
  | Err_not_enough_bytes_for_aaguid
  | Err_not_enough_bytes_for_cred_ID_length
  | Err_not_enough_bytes_for_cred_ID
  | Err_parsing_public_key
  | Err_invalid_cbor_data
  | Err_no_auth_data
  | Err_invalid_public_key_type Algorithm
  | Err_invalid_signature_for Algorithm
  | Err_unsupported_signing_algorithm Algorithm
  | Go_panic

text \<open>The error kinds of the specification, and the kind each error of the code falls under.\<close>

datatype error_kind =
    MalformedCBOR
  | MalformedAttestation
  | MalformedAuthData
  | MalformedCOSEKey
  | MalformedClientData
  | ClientDataTypeMismatch
  | OriginMismatch
  | ChallengeMismatch
  | RelyingPartyMismatch
  | UnsupportedAlgorithm
  | AlgorithmKeyMismatch
  | InvalidSignature
  | RuntimePanic

fun kind :: "error \<Rightarrow> error_kind" where
  "kind Err_parsing_client_data = MalformedClientData"
| "kind Err_invalid_client_data_type = ClientDataTypeMismatch"
| "kind Err_invalid_client_data_origin = OriginMismatch"
| "kind Err_invalid_client_data_challenge = ChallengeMismatch"
| "kind (Err_parsing_attestation_object e) = kind e"
| "kind (Err_parsing_authenticator_data e) = kind e"
| "kind (Err_invalid_signature e) = kind e"
| "kind Err_not_enough_bytes_for_rpid_hash = MalformedAuthData"
| "kind Err_assertion_issued_for_different_relying_party = RelyingPartyMismatch"
| "kind Err_authenticator_data_doesnt_match_relying_party_ID = RelyingPartyMismatch"
| "kind Err_not_enough_bytes_for_flag = MalformedAuthData"
| "kind Err_not_enough_bytes_for_counter = MalformedAuthData"
| "kind Err_not_enough_bytes_for_aaguid = MalformedAuthData"
| "kind Err_not_enough_bytes_for_cred_ID_length = MalformedAuthData"
| "kind Err_not_enough_bytes_for_cred_ID = MalformedAuthData"
| "kind Err_parsing_public_key = MalformedCOSEKey"
| "kind Err_invalid_cbor_data = MalformedAttestation"
| "kind Err_no_auth_data = MalformedAttestation"
| "kind (Err_invalid_public_key_type a) = AlgorithmKeyMismatch"
| "kind (Err_invalid_signature_for a) = InvalidSignature"
| "kind (Err_unsupported_signing_algorithm a) = UnsupportedAlgorithm"
| "kind Go_panic = RuntimePanic"

subsection \<open>Public keys\<close>

text \<open>
  \<open>crypto.PublicKey\<close> is Go's empty interface: a value of any dynamic type. The type
  switches of \<open>VerifySignature\<close> tell apart the three pointer types below; a pointer is
  \<open>None\<close> when it is nil. \<open>Ed25519_value\<close> is a plain \<open>ed25519.PublicKey\<close> (a byte slice),
  \<open>Other_key\<close> any other dynamic type, the nil interface included.
\<close>

datatype curve = P256 | P384 | P521

record ecdsa_PublicKey =
  ecdsa_Curve :: curve
  ecdsa_X :: nat
  ecdsa_Y :: nat

record rsa_PublicKey =
  rsa_N :: nat
  rsa_E :: nat

datatype PublicKey =
    Ecdsa_pointer "ecdsa_PublicKey option"
  | Ed25519_pointer "bytes option"
  | Ed25519_value bytes
  | Rsa_pointer "rsa_PublicKey option"
  | Other_key

subsection \<open>The Go standard library\<close>

text \<open>
  The hash functions and the signature primitives of Go's \<open>crypto\<close> packages, and the
  syntax layer of \<open>encoding/json\<close>, are not part of the package: they are parameters of
  the model, and every theorem holds for all of them. \<open>crypto_Hash\<close> is the
  \<open>crypto.Hash\<close> argument of \<open>rsa.VerifyPKCS1v15\<close>, whose \<open>nil\<close> error is \<open>True\<close> here.
  \<open>json_decode\<close> reads a whole JSON text: \<open>None\<close> is a syntax error, and the strings of the
  value are unquoted Go strings.
\<close>

datatype crypto_Hash = SHA256 | SHA384 | SHA512

datatype json =
    JNull
  | JBool bool
  | JNumber string
  | JString string
  | JArray "json list"
  | JObject "(string \<times> json) list"

record stdlib =
  json_decode :: "bytes \<Rightarrow> json option"
  sha256_Sum :: "bytes \<Rightarrow> bytes"
  sha512_Sum384 :: "bytes \<Rightarrow> bytes"
  sha512_Sum :: "bytes \<Rightarrow> bytes"
  ecdsa_VerifyASN1 :: "ecdsa_PublicKey \<Rightarrow> bytes \<Rightarrow> bytes \<Rightarrow> bool"
  ed25519_Verify :: "bytes \<Rightarrow> bytes \<Rightarrow> bytes \<Rightarrow> bool"
  rsa_VerifyPKCS1v15 :: "rsa_PublicKey \<Rightarrow> crypto_Hash \<Rightarrow> bytes \<Rightarrow> bytes \<Rightarrow> bool"

section \<open>VerifySignature\<close>

text \<open>
  The three ECDSA cases of the switch differ in the hash only, and so do the three RSA
  cases: \<open>verify_ecdsa\<close> and \<open>verify_rsa\<close> are the body of one case, with the algorithm
  and the digest of \<open>data\<close> as arguments. A nil \<open>*ecdsa.PublicKey\<close> or \<open>*rsa.PublicKey\<close>
  passes the type assertion and is dereferenced by the library; a nil
  \<open>*ed25519.PublicKey\<close> is dereferenced by \<open>*ed25519Pub\<close>, and \<open>ed25519.Verify\<close> panics
  when the key is not 32 bytes long.
\<close>

definition verify_ecdsa :: "stdlib \<Rightarrow> Algorithm \<Rightarrow> PublicKey \<Rightarrow> bytes \<Rightarrow> bytes \<Rightarrow> error + unit" where
  "verify_ecdsa lib alg pub digest sig =
     (case pub of
        Ecdsa_pointer p \<Rightarrow>
          (case p of
             None \<Rightarrow> Inl Go_panic
           | Some ecdsaPub \<Rightarrow>
               if \<not> ecdsa_VerifyASN1 lib ecdsaPub digest sig
               then Inl (Err_invalid_signature_for alg) else Inr ())
      | _ \<Rightarrow> Inl (Err_invalid_public_key_type alg))"

definition verify_ed25519 :: "stdlib \<Rightarrow> PublicKey \<Rightarrow> bytes \<Rightarrow> bytes \<Rightarrow> error + unit" where
  "verify_ed25519 lib pub data sig =
     (case pub of
        Ed25519_pointer p \<Rightarrow>
          (case p of
             None \<Rightarrow> Inl Go_panic
           | Some ed25519Pub \<Rightarrow>
               if length ed25519Pub \<noteq> 32 then Inl Go_panic
               else if \<not> ed25519_Verify lib ed25519Pub data sig
               then Inl (Err_invalid_signature_for EdDSA) else Inr ())
      | _ \<Rightarrow> Inl (Err_invalid_public_key_type EdDSA))"

definition verify_rsa :: "stdlib \<Rightarrow> Algorithm \<Rightarrow> crypto_Hash \<Rightarrow> PublicKey \<Rightarrow> bytes \<Rightarrow> bytes \<Rightarrow> error + unit" where
  "verify_rsa lib alg h pub digest sig =
     (case pub of
        Rsa_pointer p \<Rightarrow>
          (case p of
             None \<Rightarrow> Inl Go_panic
           | Some rsaPub \<Rightarrow>
               if \<not> rsa_VerifyPKCS1v15 lib rsaPub h digest sig
               then Inl (Err_invalid_signature_for alg) else Inr ())
      | _ \<Rightarrow> Inl (Err_invalid_public_key_type alg))"

definition VerifySignature :: "stdlib \<Rightarrow> PublicKey \<Rightarrow> Algorithm \<Rightarrow> bytes \<Rightarrow> bytes \<Rightarrow> error + unit" where
  "VerifySignature lib pub alg data sig =
     (if alg = ES256 then verify_ecdsa lib ES256 pub (sha256_Sum lib data) sig
      else if alg = ES384 then verify_ecdsa lib ES384 pub (sha512_Sum384 lib data) sig
      else if alg = ES512 then verify_ecdsa lib ES512 pub (sha512_Sum lib data) sig
      else if alg = EdDSA then verify_ed25519 lib pub data sig
      else if alg = RS256 then verify_rsa lib RS256 SHA256 pub (sha256_Sum lib data) sig
      else if alg = RS384 then verify_rsa lib RS384 SHA384 pub (sha512_Sum384 lib data) sig
      else if alg = RS512 then verify_rsa lib RS512 SHA512 pub (sha512_Sum lib data) sig
      else Inl (Err_unsupported_signing_algorithm alg))"

section \<open>Client data\<close>

text \<open>A Go string is a sequence of bytes; \<open>[]byte(s)\<close> is \<open>bytes_of s\<close>.\<close>

definition bytes_of :: "string \<Rightarrow> bytes" where
  "bytes_of s = map (\<lambda>c. of_nat (of_char c)) s"

subsection \<open>crypto/subtle\<close>

text \<open>
  \<open>subtle.ConstantTimeByteEq(x, y)\<close> is \<open>int((uint32(x^y) - 1) >> 31)\<close>, and
  \<open>subtle.ConstantTimeCompare\<close> returns 0 on slices of different length and otherwise
  folds \<open>v |= x[i] ^ y[i]\<close> over the two slices and compares \<open>v\<close> with 0.
\<close>

definition ConstantTimeByteEq :: "byte \<Rightarrow> byte \<Rightarrow> int" where
  "ConstantTimeByteEq x y = uint (drop_bit 31 ((ucast (x XOR y) :: 32 word) - 1))"

definition ConstantTimeCompare :: "bytes \<Rightarrow> bytes \<Rightarrow> int" where
  "ConstantTimeCompare x y =
     (if length x \<noteq> length y then 0
      else ConstantTimeByteEq (foldl (\<lambda>v (a, b). v OR (a XOR b)) 0 (zip x y)) 0)"

text \<open>\<open>func (c clientDataChallenge) Equal(b []byte) bool\<close>\<close>

definition Equal :: "bytes \<Rightarrow> bytes \<Rightarrow> bool" where
  "Equal c b = (ConstantTimeCompare c b = 1)"

subsection \<open>encoding/base64\<close>

text \<open>
  \<open>base64.RawURLEncoding.DecodeString\<close>: the URL-safe alphabet without padding. The
  decoder skips carriage returns and line feeds, rejects every other character outside
  the alphabet (\<open>=\<close> included) and a final group of one character, and does not look at
  the unused low bits of a final group of two or three characters.
\<close>

definition b64url_value :: "char \<Rightarrow> nat option" where
  "b64url_value c =
     (let n = (of_char c :: nat) in
      if 65 \<le> n \<and> n \<le> 90 then Some (n - 65)
      else if 97 \<le> n \<and> n \<le> 122 then Some (n - 71)
      else if 48 \<le> n \<and> n \<le> 57 then Some (n + 4)
      else if n = 45 then Some 62
      else if n = 95 then Some 63
      else None)"

fun b64_values :: "string \<Rightarrow> nat list option" where
  "b64_values [] = Some []"
| "b64_values (c # cs) =
     (if c = CHR 0x0A \<or> c = CHR 0x0D then b64_values cs
      else case b64url_value c of
             None \<Rightarrow> None
           | Some v \<Rightarrow> (case b64_values cs of None \<Rightarrow> None | Some vs \<Rightarrow> Some (v # vs)))"

fun b64_groups :: "nat list \<Rightarrow> bytes option" where
  "b64_groups (a # b # c # d # rest) =
     (case b64_groups rest of
        None \<Rightarrow> None
      | Some out \<Rightarrow>
          Some (of_nat (a * 4 + b div 16) # of_nat (b mod 16 * 16 + c div 4)
                  # of_nat (c mod 4 * 64 + d) # out))"
| "b64_groups [a, b, c] = Some [of_nat (a * 4 + b div 16), of_nat (b mod 16 * 16 + c div 4)]"
| "b64_groups [a, b] = Some [of_nat (a * 4 + b div 16)]"
| "b64_groups [a] = None"
| "b64_groups [] = Some []"

definition RawURLEncoding_DecodeString :: "string \<Rightarrow> bytes option" where
  "RawURLEncoding_DecodeString s =
     (case b64_values s of None \<Rightarrow> None | Some vs \<Rightarrow> b64_groups vs)"

subsection \<open>The clientData struct and its decoding\<close>

record clientData =
  cd_Type :: string
  cd_Challenge :: bytes
  cd_Origin :: string
  cd_TopOrigin :: string
  cd_CrossOrigin :: bool

text \<open>\<open>var clientData clientData\<close>: the zero value of the struct.\<close>

definition zero_clientData :: clientData where
  "zero_clientData = \<lparr> cd_Type = [], cd_Challenge = [], cd_Origin = [], cd_TopOrigin = [],
                        cd_CrossOrigin = False \<rparr>"

text \<open>
  \<open>func (c *clientDataChallenge) UnmarshalJSON(b []byte) error\<close>. The library calls it
  with the text of the member's value; \<open>json.Unmarshal(b, &s)\<close> into a string accepts a
  JSON string, leaves \<open>s\<close> empty on \<open>null\<close>, and fails on every other value.
\<close>

definition UnmarshalJSON :: "json \<Rightarrow> bytes option" where
  "UnmarshalJSON b =
     (case b of
        JString s \<Rightarrow> RawURLEncoding_DecodeString s
      | JNull \<Rightarrow> RawURLEncoding_DecodeString []
      | _ \<Rightarrow> None)"

text \<open>
  \<open>encoding/json\<close> matches a member name with a struct field by its \<open>json\<close> tag, exactly
  or else case-insensitively. Its case folding maps the ASCII letters to upper case and,
  of all other runes, only U+017F (bytes C5 BF) to \<open>S\<close> and U+212A (bytes E2 84 AA) to
  \<open>K\<close> into the ASCII range.
\<close>

fun foldName :: "string \<Rightarrow> string" where
  "foldName [] = []"
| "foldName (c # cs) =
     (if c = CHR 0xC5 \<and> take 1 cs = [CHR 0xBF] then CHR ''S'' # foldName (drop 1 cs)
      else if c = CHR 0xE2 \<and> take 2 cs = [CHR 0x84, CHR 0xAA] then CHR ''K'' # foldName (drop 2 cs)
      else if 97 \<le> (of_char c :: nat) \<and> (of_char c :: nat) \<le> 122
           then char_of (of_char c - 32 :: nat) # foldName cs
      else c # foldName cs)"

definition names_field :: "string \<Rightarrow> string \<Rightarrow> bool" where
  "names_field key tag = (foldName key = foldName tag)"

text \<open>
  Storing one member of the object. A string field takes a JSON string, a bool field a
  JSON boolean; \<open>null\<close> leaves the field as it is; any other value is an
  \<open>UnmarshalTypeError\<close>. The challenge field is decoded by \<open>UnmarshalJSON\<close>. A member that
  names no field is skipped. \<open>None\<close> is an error of \<open>json.Unmarshal\<close>.
\<close>

definition store_string :: "json \<Rightarrow> string \<Rightarrow> string option" where
  "store_string v old = (case v of JString s \<Rightarrow> Some s | JNull \<Rightarrow> Some old | _ \<Rightarrow> None)"

definition store_bool :: "json \<Rightarrow> bool \<Rightarrow> bool option" where
  "store_bool v old = (case v of JBool b \<Rightarrow> Some b | JNull \<Rightarrow> Some old | _ \<Rightarrow> None)"

definition store_member :: "clientData \<Rightarrow> string \<times> json \<Rightarrow> clientData option" where
  "store_member cd kv =
     (let key = fst kv; v = snd kv in
      if names_field key ''type'' then
        map_option (\<lambda>s. cd\<lparr>cd_Type := s\<rparr>) (store_string v (cd_Type cd))
      else if names_field key ''challenge'' then
        map_option (\<lambda>c. cd\<lparr>cd_Challenge := c\<rparr>) (UnmarshalJSON v)
      else if names_field key ''origin'' then
        map_option (\<lambda>s. cd\<lparr>cd_Origin := s\<rparr>) (store_string v (cd_Origin cd))
      else if names_field key ''topOrigin'' then
        map_option (\<lambda>s. cd\<lparr>cd_TopOrigin := s\<rparr>) (store_string v (cd_TopOrigin cd))
      else if names_field key ''crossOrigin'' then
        map_option (\<lambda>b. cd\<lparr>cd_CrossOrigin := b\<rparr>) (store_bool v (cd_CrossOrigin cd))
      else Some cd)"

fun store_members :: "clientData \<Rightarrow> (string \<times> json) list \<Rightarrow> clientData option" where
  "store_members cd [] = Some cd"
| "store_members cd (kv # kvs) =
     (case store_member cd kv of None \<Rightarrow> None | Some cd' \<Rightarrow> store_members cd' kvs)"

text \<open>
  \<open>json.Unmarshal(clientDataJSON, &clientData)\<close> on the zero struct: a syntax error
  fails, \<open>null\<close> leaves the struct as it is, an object fills the fields member by member
  (a later member overwrites an earlier one), any other value is an error.
\<close>

definition json_Unmarshal :: "stdlib \<Rightarrow> bytes \<Rightarrow> clientData option" where
  "json_Unmarshal lib data =
     (case json_decode lib data of
        None \<Rightarrow> None
      | Some JNull \<Rightarrow> Some zero_clientData
      | Some (JObject members) \<Rightarrow> store_members zero_clientData members
      | Some _ \<Rightarrow> None)"

section \<open>Flags, Assertion, RelyingParty\<close>

text \<open>\<open>type Flags byte\<close> and its two methods that concern the layout of authData.\<close>

type_synonym Flags = byte



record Assertion =
  Flags :: Flags
  Counter :: "32 word"

record RelyingParty =
  rp_ID :: string
  rp_Origin :: string

text \<open>\<open>binary.BigEndian.Uint32\<close> and \<open>Uint16\<close>, on slices of four and two bytes.\<close>

definition BigEndian_Uint32 :: "bytes \<Rightarrow> 32 word" where
  "BigEndian_Uint32 b =
     ucast (b ! 3) OR push_bit 8 (ucast (b ! 2)) OR push_bit 16 (ucast (b ! 1))
       OR push_bit 24 (ucast (b ! 0))"

definition BigEndian_Uint16 :: "bytes \<Rightarrow> 16 word" where
  "BigEndian_Uint16 b = ucast (b ! 1) OR push_bit 8 (ucast (b ! 0))"

section \<open>VerifyAssertion\<close>

text \<open>
  A panic inside \<open>VerifySignature\<close> unwinds through \<open>VerifyAssertion\<close>; every error it
  returns is wrapped as \<open>"invalid signature: %v"\<close>.
\<close>

definition VerifyAssertion ::
  "stdlib \<Rightarrow> RelyingParty \<Rightarrow> PublicKey \<Rightarrow> Algorithm \<Rightarrow> bytes \<Rightarrow> bytes \<Rightarrow> bytes \<Rightarrow> bytes
     \<Rightarrow> error + Assertion" where
  "VerifyAssertion lib rp pub alg challenge clientDataJSON authData sig =
     (let clientDataHash = sha256_Sum lib clientDataJSON in
      case json_Unmarshal lib clientDataJSON of
        None \<Rightarrow> Inl Err_parsing_client_data
      | Some clientData \<Rightarrow>
          if cd_Type clientData \<noteq> ''webauthn.get'' then Inl Err_invalid_client_data_type
          else if cd_Origin clientData \<noteq> rp_Origin rp then Inl Err_invalid_client_data_origin
          else if \<not> Equal (cd_Challenge clientData) challenge
            then Inl Err_invalid_client_data_challenge
          else
            let data = authData @ clientDataHash in
            case VerifySignature lib pub alg data sig of
              Inl err \<Rightarrow> if err = Go_panic then Inl Go_panic else Inl (Err_invalid_signature err)
            | Inr u \<Rightarrow>
                let rpIDHash = sha256_Sum lib (bytes_of (rp_ID rp)) in
                if length authData < 32 then Inl Err_not_enough_bytes_for_rpid_hash
                else if rpIDHash \<noteq> take 32 authData
                  then Inl Err_assertion_issued_for_different_relying_party
                else if length authData < 32 + 1 then Inl Err_not_enough_bytes_for_flag
                else
                  let flags = authData ! 32 in
                  if length authData < 32 + 1 + 4 then Inl Err_not_enough_bytes_for_counter
                  else
                    let counter = BigEndian_Uint32 (take 4 (drop (32 + 1) authData)) in
                    Inr \<lparr> Flags = flags, Counter = counter \<rparr>)"

section \<open>Package cbor\<close>

text \<open>
  The decoder of \<open>webauthn/internal/cbor\<close> is a cursor over an immutable byte slice; the
  model of a decoder is the unread tail of its input, and each operation returns its
  result with the new tail, or \<open>None\<close> where the Go method returns \<open>false\<close> (or an error).
\<close>

definition be_nat :: "bytes \<Rightarrow> nat" where
  "be_nat bs = foldl (\<lambda>acc b. acc * 256 + unat b) 0 bs"

definition string_of :: "bytes \<Rightarrow> string" where
  "string_of bs = map (\<lambda>b. char_of (unat b)) bs"

definition read_arg :: "nat \<Rightarrow> nat \<Rightarrow> bytes \<Rightarrow> (nat \<times> nat \<times> bytes) option" where
  "read_arg major n rest =
     (if length rest < n then None else Some (major, be_nat (take n rest), drop n rest))"

text \<open>
  Modelled from the spec: the head of a CBOR item, which is missing from the sources:
  the major type in the high three bits of the first byte and the argument in the low five
  bits, or in the 1, 2, 4 or 8 bytes that follow (non-canonical widths decode to the same
  value). Indefinite-length encodings (low bits 31) and the reserved values 28 to 30 are
  rejected.
\<close>

definition read_head :: "bytes \<Rightarrow> (nat \<times> nat \<times> bytes) option" where
  "read_head bs =
     (case bs of
        [] \<Rightarrow> None
      | b # rest \<Rightarrow>
          let major = unat b div 32; info = unat b mod 32 in
          if info < 24 then Some (major, info, rest)
          else if info = 24 then read_arg major 1 rest
          else if info = 25 then read_arg major 2 rest
          else if info = 26 then read_arg major 4 rest
          else if info = 27 then read_arg major 8 rest
          else None)"

text \<open>
  Modelled from the spec: \<open>read_int\<close>, which is missing from the sources: the next
  integer, major type 0, or major type 1 with value \<open>-1 - n\<close>; anything else fails.
\<close>

definition cbor_Int :: "bytes \<Rightarrow> (int \<times> bytes) option" where
  "cbor_Int bs =
     (case read_head bs of
        None \<Rightarrow> None
      | Some (major, n, rest) \<Rightarrow>
          if major = 0 then Some (int n, rest)
          else if major = 1 then Some (- 1 - int n, rest)
          else None)"

text \<open>
  Modelled from the spec: \<open>read_bytes\<close> (Go \<open>Bytes\<close>), which is missing from the sources: a
  finite byte string, major type 2, returned as a sub-slice of the input.
\<close>

definition cbor_Bytes :: "bytes \<Rightarrow> (bytes \<times> bytes) option" where
  "cbor_Bytes bs =
     (case read_head bs of
        None \<Rightarrow> None
      | Some (major, n, rest) \<Rightarrow>
          if major = 2 \<and> n \<le> length rest then Some (take n rest, drop n rest) else None)"

text \<open>
  Modelled from the spec: \<open>read_text\<close> (Go \<open>String\<close>), which is missing from the sources: a
  finite text string, major type 3.
\<close>

definition cbor_String :: "bytes \<Rightarrow> (string \<times> bytes) option" where
  "cbor_String bs =
     (case read_head bs of
        None \<Rightarrow> None
      | Some (major, n, rest) \<Rightarrow>
          if major = 3 \<and> n \<le> length rest then Some (string_of (take n rest), drop n rest)
          else None)"

lemma read_head_shorter: "read_head bs = Some (major, n, rest) \<Longrightarrow> length rest < length bs"
  by (auto simp: read_head_def read_arg_def Let_def split: list.splits if_splits)

text \<open>
  Modelled from the spec: \<open>skip\<close> (Go \<open>Skip\<close>), which is missing from the sources: consume
  and discard one complete item. \<open>skip_items n\<close> consumes \<open>n\<close> complete items: a string
  takes its bytes, an array of \<open>k\<close> elements leaves \<open>k\<close> more items to consume, a map of
  \<open>k\<close> entries \<open>2 * k\<close>, a tag one, an integer or a simple value none.
\<close>

function skip_items :: "nat \<Rightarrow> bytes \<Rightarrow> bytes option" where
  "skip_items n bs =
     (if n = 0 then Some bs
      else case read_head bs of
             None \<Rightarrow> None
           | Some (major, k, rest) \<Rightarrow>
               if major = 2 \<or> major = 3 then
                 (if length rest < k then None else skip_items (n - 1) (drop k rest))
               else if major = 4 then skip_items (n - 1 + k) rest
               else if major = 5 then skip_items (n - 1 + 2 * k) rest
               else if major = 6 then skip_items n rest
               else skip_items (n - 1) rest)"
  by pat_completeness auto
termination
  by (relation "measure (\<lambda>(n, bs). length bs)") (auto dest: read_head_shorter)

declare skip_items.simps [simp del]

definition cbor_Skip :: "bytes \<Rightarrow> bytes option" where
  "cbor_Skip bs = skip_items 1 bs"

text \<open>
  Modelled from the spec: \<open>read_raw\<close> (Go \<open>Raw\<close>), which is missing from the sources: the
  byte span of the next complete item, uninterpreted.
\<close>

definition cbor_Raw :: "bytes \<Rightarrow> (bytes \<times> bytes) option" where
  "cbor_Raw bs =
     (case cbor_Skip bs of
        None \<Rightarrow> None
      | Some rest \<Rightarrow> Some (take (length bs - length rest) bs, rest))"

text \<open>
  Modelled from the spec: \<open>read_map(entry_fn)\<close> (Go \<open>Map\<close>), which is missing from the
  sources: read a map header of length \<open>n\<close> and invoke \<open>entry_fn\<close> exactly \<open>n\<close> times on the
  decoder positioned at the key; if one call fails the whole map fails. The Go callback
  is a closure that assigns to variables of its caller: here it takes their values and
  returns the new ones.
\<close>

fun map_entries ::
  "nat \<Rightarrow> ('s \<Rightarrow> bytes \<Rightarrow> ('s \<times> bytes) option) \<Rightarrow> 's \<Rightarrow> bytes \<Rightarrow> ('s \<times> bytes) option" where
  "map_entries 0 entry_fn vars bs = Some (vars, bs)"
| "map_entries (Suc n) entry_fn vars bs =
     (case entry_fn vars bs of
        None \<Rightarrow> None
      | Some (vars', bs') \<Rightarrow> map_entries n entry_fn vars' bs')"

definition cbor_Map ::
  "('s \<Rightarrow> bytes \<Rightarrow> ('s \<times> bytes) option) \<Rightarrow> 's \<Rightarrow> bytes \<Rightarrow> ('s \<times> bytes) option" where
  "cbor_Map entry_fn vars bs =
     (case read_head bs of
        None \<Rightarrow> None
      | Some (major, n, rest) \<Rightarrow> if major = 5 then map_entries n entry_fn vars rest else None)"

text \<open>
  Modelled from the spec: \<open>done\<close> and \<open>rest\<close> (Go \<open>Done\<close> and \<open>Rest\<close>), which are missing
  from the sources: whether the decoder is at the end of its input, and the unread tail.
\<close>

definition cbor_Done :: "bytes \<Rightarrow> bool" where
  "cbor_Done bs = (bs = [])"

definition cbor_Rest :: "bytes \<Rightarrow> bytes" where
  "cbor_Rest bs = bs"

subsection \<open>COSE keys\<close>

text \<open>
  The members of a COSE_Key map that the reader looks at: an integer or a byte string
  under each of the labels 1 (kty), 3 (alg), -1, -2 and -3.
\<close>

datatype cose_value = Cose_int int | Cose_bytes bytes

record cose_members =
  cose_kty :: "cose_value option"
  cose_alg :: "cose_value option"
  cose_m1 :: "cose_value option"
  cose_m2 :: "cose_value option"
  cose_m3 :: "cose_value option"

definition no_members :: cose_members where
  "no_members = \<lparr> cose_kty = None, cose_alg = None, cose_m1 = None, cose_m2 = None,
                   cose_m3 = None \<rparr>"

definition cose_read_value :: "bytes \<Rightarrow> (cose_value \<times> bytes) option" where
  "cose_read_value bs =
     (case cbor_Int bs of
        Some (i, rest) \<Rightarrow> Some (Cose_int i, rest)
      | None \<Rightarrow>
          (case cbor_Bytes bs of
             Some (b, rest) \<Rightarrow> Some (Cose_bytes b, rest)
           | None \<Rightarrow> None))"

definition cose_entry :: "cose_members \<Rightarrow> bytes \<Rightarrow> (cose_members \<times> bytes) option" where
  "cose_entry m kv =
     (case cbor_Int kv of
        None \<Rightarrow> None
      | Some (label, kv1) \<Rightarrow>
          if label = 1 \<or> label = 3 \<or> label = - 1 \<or> label = - 2 \<or> label = - 3 then
            (case cose_read_value kv1 of
               None \<Rightarrow> None
             | Some (v, kv2) \<Rightarrow>
                 Some (if label = 1 then m\<lparr>cose_kty := Some v\<rparr>
                       else if label = 3 then m\<lparr>cose_alg := Some v\<rparr>
                       else if label = - 1 then m\<lparr>cose_m1 := Some v\<rparr>
                       else if label = - 2 then m\<lparr>cose_m2 := Some v\<rparr>
                       else m\<lparr>cose_m3 := Some v\<rparr>, kv2))
          else (case cbor_Skip kv1 of None \<Rightarrow> None | Some kv2 \<Rightarrow> Some (m, kv2)))"

definition curve_of :: "int \<Rightarrow> (curve \<times> nat \<times> Algorithm) option" where
  "curve_of crv =
     (if crv = 1 then Some (P256, 32, ES256)
      else if crv = 2 then Some (P384, 48, ES384)
      else if crv = 3 then Some (P521, 66, ES512)
      else None)"

definition cose_key :: "cose_members \<Rightarrow> (Algorithm \<times> PublicKey) option" where
  "cose_key m =
     (case (cose_kty m, cose_alg m) of
        (Some (Cose_int kty), Some (Cose_int alg)) \<Rightarrow>
          if kty = 2 then
            (case (cose_m1 m, cose_m2 m, cose_m3 m) of
               (Some (Cose_int crv), Some (Cose_bytes x), Some (Cose_bytes y)) \<Rightarrow>
                 (case curve_of crv of
                    None \<Rightarrow> None
                  | Some (c, coord, a) \<Rightarrow>
                      if alg = a \<and> length x \<le> coord \<and> length y \<le> coord
                      then Some (alg, Ecdsa_pointer (Some \<lparr> ecdsa_Curve = c, ecdsa_X = be_nat x,
                                                             ecdsa_Y = be_nat y \<rparr>))
                      else None)
             | _ \<Rightarrow> None)
          else if kty = 1 then
            (case (cose_m1 m, cose_m2 m) of
               (Some (Cose_int crv), Some (Cose_bytes x)) \<Rightarrow>
                 if crv = 6 \<and> length x = 32 \<and> alg = EdDSA
                 then Some (alg, Ed25519_pointer (Some x)) else None
             | _ \<Rightarrow> None)
          else if kty = 3 then
            (case (cose_m1 m, cose_m2 m) of
               (Some (Cose_bytes n), Some (Cose_bytes e)) \<Rightarrow>
                 if alg = RS256 \<or> alg = RS384 \<or> alg = RS512
                 then Some (alg, Rsa_pointer (Some \<lparr> rsa_N = be_nat n, rsa_E = be_nat e \<rparr>))
                 else None
             | _ \<Rightarrow> None)
          else None
      | _ \<Rightarrow> None)"

text \<open>
  Modelled from the spec: the COSE key reader (Go \<open>PublicKey\<close>), which is missing from the
  sources. It reads one CBOR map by integer label: label 1 (kty) is 2 for EC2, 1 for OKP,
  3 for RSA; label 3 (alg) is an algorithm tag; for EC2 label -1 (crv) is 1, 2 or 3 and
  labels -2 and -3 are the coordinates, byte strings no longer than the curve's
  coordinate length; for OKP crv is 6 and label -2 the 32-byte key; for RSA labels -1 and
  -2 are the big-endian modulus and exponent. The algorithm and the key type must agree,
  unknown labels are skipped, and a missing label fails. The decoder is left after the
  map. The spec does not say whether the Ed25519 key is handed out by value or by
  pointer: the model hands out the pointer that \<open>VerifySignature\<close> asks for.
\<close>

definition cbor_PublicKey :: "bytes \<Rightarrow> ((Algorithm \<times> PublicKey) \<times> bytes) option" where
  "cbor_PublicKey bs =
     (case cbor_Map cose_entry no_members bs of
        None \<Rightarrow> None
      | Some (m, rest) \<Rightarrow> (case cose_key m of None \<Rightarrow> None | Some pub \<Rightarrow> Some (pub, rest)))"

section \<open>Attestation\<close>

record AttestationObject =
  Format :: string
  AttestationStatement :: bytes
  AuthenticatorData :: bytes

text \<open>
  The callback of \<open>parseAttestationObject\<close>. Its variables \<open>format\<close>, \<open>attest\<close> and
  \<open>authData\<close> are the triple; a member read twice overwrites the earlier value.
\<close>

definition attestation_entry ::
  "string \<times> bytes \<times> bytes \<Rightarrow> bytes \<Rightarrow> ((string \<times> bytes \<times> bytes) \<times> bytes) option" where
  "attestation_entry vars kv =
     (case vars of (format, attest, authData) \<Rightarrow>
      case cbor_String kv of
        None \<Rightarrow> None
      | Some (key, kv1) \<Rightarrow>
          if key = ''fmt'' then
            (case cbor_String kv1 of
               None \<Rightarrow> None | Some (format', kv2) \<Rightarrow> Some ((format', attest, authData), kv2))
          else if key = ''attStmt'' then
            (case cbor_Raw kv1 of
               None \<Rightarrow> None | Some (attest', kv2) \<Rightarrow> Some ((format, attest', authData), kv2))
          else if key = ''authData'' then
            (case cbor_Bytes kv1 of
               None \<Rightarrow> None | Some (authData', kv2) \<Rightarrow> Some ((format, attest, authData'), kv2))
          else
            (case cbor_Skip kv1 of
               None \<Rightarrow> None | Some kv2 \<Rightarrow> Some ((format, attest, authData), kv2)))"

definition parseAttestationObject :: "bytes \<Rightarrow> error + AttestationObject" where
  "parseAttestationObject b =
     (case cbor_Map attestation_entry ([], [], []) b of
        None \<Rightarrow> Inl Err_invalid_cbor_data
      | Some ((format, attest, authData), d) \<Rightarrow>
          if \<not> cbor_Done d then Inl Err_invalid_cbor_data
          else if length authData = 0 then Inl Err_no_auth_data
          else Inr \<lparr> Format = format, AttestationStatement = attest,
                     AuthenticatorData = authData \<rparr>)"

record AuthenticatorData =
  ad_Flags :: Flags
  ad_Counter :: "32 word"
  ad_AAGUID :: bytes
  ad_CredentialID :: bytes
  ad_Algorithm :: Algorithm
  ad_PublicKey :: PublicKey
  ad_Extensions :: bytes

definition ParseAuthenticatorData :: "stdlib \<Rightarrow> string \<Rightarrow> bytes \<Rightarrow> error + AuthenticatorData" where
  "ParseAuthenticatorData lib rpID b =
     (if length b < 32 then Inl Err_not_enough_bytes_for_rpid_hash
      else
        let rpidHash = take 32 b; wantRPID = sha256_Sum lib (bytes_of rpID) in
        if wantRPID \<noteq> rpidHash then Inl Err_authenticator_data_doesnt_match_relying_party_ID
        else
          let b1 = drop 32 b in
          if length b1 < 1 then Inl Err_not_enough_bytes_for_flag
          else
            let flags = b1 ! 0; b2 = drop 1 b1 in
            if length b2 < 4 then Inl Err_not_enough_bytes_for_counter
            else
              let counter = BigEndian_Uint32 (take 4 b2); b3 = drop 4 b2 in
              if length b3 < 16 then Inl Err_not_enough_bytes_for_aaguid
              else
                let aaguid = take 16 b3; b4 = drop 16 b3 in
                if length b4 < 2 then Inl Err_not_enough_bytes_for_cred_ID_length
                else
                  let credIDSize = BigEndian_Uint16 (take 2 b4); b5 = drop 2 b4;
                      size' = unat credIDSize in
                  if length b5 < size' then Inl Err_not_enough_bytes_for_cred_ID
                  else
                    let credentialID = take size' b5; b6 = drop size' b5 in
                    case cbor_PublicKey b6 of
                      None \<Rightarrow> Inl Err_parsing_public_key
                    | Some ((alg, pub), d) \<Rightarrow>
                        Inr \<lparr> ad_Flags = flags, ad_Counter = counter, ad_AAGUID = aaguid,
                              ad_CredentialID = credentialID, ad_Algorithm = alg,
                              ad_PublicKey = pub,
                              ad_Extensions = (if \<not> cbor_Done d then cbor_Rest d else []) \<rparr>)"

section \<open>VerifyAttestation and VerifyAttestationObject\<close>

definition VerifyAttestation ::
  "stdlib \<Rightarrow> RelyingParty \<Rightarrow> bytes \<Rightarrow> bytes \<Rightarrow> bytes \<Rightarrow> error + AuthenticatorData" where
  "VerifyAttestation lib rp challenge clientDataJSON attestationObject =
     (case json_Unmarshal lib clientDataJSON of
        None \<Rightarrow> Inl Err_parsing_client_data
      | Some clientData \<Rightarrow>
          if cd_Type clientData \<noteq> ''webauthn.create'' then Inl Err_invalid_client_data_type
          else if cd_Origin clientData \<noteq> rp_Origin rp then Inl Err_invalid_client_data_origin
          else if \<not> Equal (cd_Challenge clientData) challenge
            then Inl Err_invalid_client_data_challenge
          else
            case parseAttestationObject attestationObject of
              Inl err \<Rightarrow> Inl (Err_parsing_attestation_object err)
            | Inr attObj \<Rightarrow>
                (case ParseAuthenticatorData lib (rp_ID rp) (AuthenticatorData attObj) of
                   Inl err \<Rightarrow> Inl (Err_parsing_authenticator_data err)
                 | Inr data \<Rightarrow> Inr data))"

definition VerifyAttestationObject ::
  "stdlib \<Rightarrow> RelyingParty \<Rightarrow> bytes \<Rightarrow> bytes \<Rightarrow> bytes \<Rightarrow> error + AttestationObject" where
  "VerifyAttestationObject lib rp challenge clientDataJSON attestationObject =
     (case json_Unmarshal lib clientDataJSON of
        None \<Rightarrow> Inl Err_parsing_client_data
      | Some clientData \<Rightarrow>
          if cd_Type clientData \<noteq> ''webauthn.create'' then Inl Err_invalid_client_data_type
          else if cd_Origin clientData \<noteq> rp_Origin rp then Inl Err_invalid_client_data_origin
          else if \<not> Equal (cd_Challenge clientData) challenge
            then Inl Err_invalid_client_data_challenge
          else
            case parseAttestationObject attestationObject of
              Inl err \<Rightarrow> Inl (Err_parsing_attestation_object err)
            | Inr attObj \<Rightarrow> Inr attObj)"

section \<open>Concrete inputs\<close>

text \<open>
  The "Chrome local" vector of \<open>packed_test.go\<close>: relying party \<open>localhost\<close>, origin
  \<open>http://localhost:8080\<close>, its client data, its challenge, its attestation object and the
  authenticator data inside it. \<open>get_clientData\<close> is the same client data with the type of
  an assertion, and \<open>bare_clientData\<close> a client data without a challenge member.
\<close>

definition localhost_rp :: RelyingParty where
  "localhost_rp = \<lparr> rp_ID = ''localhost'', rp_Origin = ''http://localhost:8080'' \<rparr>"

definition chrome_clientData :: string where
  \<open>chrome_clientData =
     ''{"type":"webauthn.create","challenge":"8XJI5cQqW-VqtSPO7JIpUg","origin":"http://localhost:8080","crossOrigin":false}''\<close>

definition get_clientData :: string where
  \<open>get_clientData =
     ''{"type":"webauthn.get","challenge":"8XJI5cQqW-VqtSPO7JIpUg","origin":"http://localhost:8080","crossOrigin":false}''\<close>

definition bare_clientData :: string where
  \<open>bare_clientData = ''{"type":"webauthn.get","origin":"http://localhost:8080"}''\<close>

definition chrome_challenge :: bytes where
  "chrome_challenge = [
       0xF1, 0x72, 0x48, 0xE5, 0xC4, 0x2A, 0x5B, 0xE5, 0x6A, 0xB5, 0x23, 0xCE, 0xEC, 0x92, 0x29, 0x52]"

definition chrome_attestationObject :: bytes where
  "chrome_attestationObject = [
       0xA3, 0x63, 0x66, 0x6D, 0x74, 0x66, 0x70, 0x61, 0x63, 0x6B, 0x65, 0x64, 0x67, 0x61, 0x74, 0x74,
       0x53, 0x74, 0x6D, 0x74, 0xA2, 0x63, 0x61, 0x6C, 0x67, 0x26, 0x63, 0x73, 0x69, 0x67, 0x58, 0x47,
       0x30, 0x45, 0x02, 0x21, 0x00, 0x97, 0x61, 0x3E, 0x32, 0x97, 0x40, 0x0A, 0x16, 0x06, 0x00, 0x43,
       0xC3, 0xEB, 0x6E, 0xF2, 0xAD, 0x96, 0xA5, 0x3A, 0xD7, 0x2D, 0x42, 0xF0, 0x14, 0x18, 0x29, 0x24,
       0x6B, 0xB4, 0x48, 0xB2, 0x3B, 0x02, 0x20, 0x38, 0xF7, 0x77, 0xFE, 0xB4, 0x85, 0x49, 0x91, 0xFF,
       0x68, 0x79, 0x25, 0xF6, 0xE0, 0x5B, 0x12, 0x1C, 0x9A, 0xA4, 0x34, 0xA6, 0x26, 0xA6, 0x1D, 0x88,
       0x00, 0x3E, 0xF0, 0x4B, 0x34, 0xCC, 0x00, 0x68, 0x61, 0x75, 0x74, 0x68, 0x44, 0x61, 0x74, 0x61,
       0x58, 0xA4, 0x49, 0x96, 0x0D, 0xE5, 0x88, 0x0E, 0x8C, 0x68, 0x74, 0x34, 0x17, 0x0F, 0x64, 0x76,
       0x60, 0x5B, 0x8F, 0xE4, 0xAE, 0xB9, 0xA2, 0x86, 0x32, 0xC7, 0x99, 0x5C, 0xF3, 0xBA, 0x83, 0x1D,
       0x97, 0x63, 0x45, 0x00, 0x00, 0x00, 0x00, 0xAD, 0xCE, 0x00, 0x02, 0x35, 0xBC, 0xC6, 0x0A, 0x64,
       0x8B, 0x0B, 0x25, 0xF1, 0xF0, 0x55, 0x03, 0x00, 0x20, 0x67, 0xCD, 0x03, 0x99, 0xF8, 0x45, 0x2A,
       0xB4, 0x82, 0xC1, 0xB3, 0x20, 0x1E, 0xA4, 0x99, 0xAC, 0xF3, 0x2C, 0xB7, 0xB4, 0x82, 0x84, 0x4F,
       0xFB, 0x54, 0x06, 0xE2, 0xE8, 0xB1, 0xC3, 0xEC, 0xD3, 0xA5, 0x01, 0x02, 0x03, 0x26, 0x20, 0x01,
       0x21, 0x58, 0x20, 0x9B, 0x54, 0xBF, 0x70, 0xBD, 0x17, 0x14, 0xE7, 0xD6, 0x2E, 0xF1, 0x00, 0xB6,
       0xC6, 0x40, 0x98, 0xF3, 0x0E, 0x4C, 0x85, 0x10, 0x21, 0xDA, 0x1D, 0x0E, 0x7E, 0x29, 0x8A, 0x26,
       0xF5, 0xE8, 0x7D, 0x22, 0x58, 0x20, 0x09, 0xF5, 0xC3, 0x2E, 0x75, 0x59, 0x53, 0xD2, 0x84, 0x2A,
       0xE8, 0x6A, 0x74, 0xF2, 0x27, 0x18, 0x77, 0x1F, 0x02, 0x56, 0x52, 0x09, 0x33, 0x9E, 0x45, 0x64,
       0x94, 0xCE, 0xB4, 0xA4, 0x90, 0x7A]"

text \<open>The attestation statement inside the attestation object.\<close>

definition chrome_attStmt :: bytes where
  "chrome_attStmt = [
         0xA2, 0x63, 0x61, 0x6C, 0x67, 0x26, 0x63, 0x73, 0x69, 0x67, 0x58, 0x47, 0x30, 0x45, 0x02, 0x21,
         0x00, 0x97, 0x61, 0x3E, 0x32, 0x97, 0x40, 0x0A, 0x16, 0x06, 0x00, 0x43, 0xC3, 0xEB, 0x6E, 0xF2,
         0xAD, 0x96, 0xA5, 0x3A, 0xD7, 0x2D, 0x42, 0xF0, 0x14, 0x18, 0x29, 0x24, 0x6B, 0xB4, 0x48, 0xB2,
         0x3B, 0x02, 0x20, 0x38, 0xF7, 0x77, 0xFE, 0xB4, 0x85, 0x49, 0x91, 0xFF, 0x68, 0x79, 0x25, 0xF6,
         0xE0, 0x5B, 0x12, 0x1C, 0x9A, 0xA4, 0x34, 0xA6, 0x26, 0xA6, 0x1D, 0x88, 0x00, 0x3E, 0xF0, 0x4B,
         0x34, 0xCC, 0x00]"

definition chrome_authData :: bytes where
  "chrome_authData = [
       0x49, 0x96, 0x0D, 0xE5, 0x88, 0x0E, 0x8C, 0x68, 0x74, 0x34, 0x17, 0x0F, 0x64, 0x76, 0x60, 0x5B,
       0x8F, 0xE4, 0xAE, 0xB9, 0xA2, 0x86, 0x32, 0xC7, 0x99, 0x5C, 0xF3, 0xBA, 0x83, 0x1D, 0x97, 0x63,
       0x45, 0x00, 0x00, 0x00, 0x00, 0xAD, 0xCE, 0x00, 0x02, 0x35, 0xBC, 0xC6, 0x0A, 0x64, 0x8B, 0x0B,
       0x25, 0xF1, 0xF0, 0x55, 0x03, 0x00, 0x20, 0x67, 0xCD, 0x03, 0x99, 0xF8, 0x45, 0x2A, 0xB4, 0x82,
       0xC1, 0xB3, 0x20, 0x1E, 0xA4, 0x99, 0xAC, 0xF3, 0x2C, 0xB7, 0xB4, 0x82, 0x84, 0x4F, 0xFB, 0x54,
       0x06, 0xE2, 0xE8, 0xB1, 0xC3, 0xEC, 0xD3, 0xA5, 0x01, 0x02, 0x03, 0x26, 0x20, 0x01, 0x21, 0x58,
       0x20, 0x9B, 0x54, 0xBF, 0x70, 0xBD, 0x17, 0x14, 0xE7, 0xD6, 0x2E, 0xF1, 0x00, 0xB6, 0xC6, 0x40,
       0x98, 0xF3, 0x0E, 0x4C, 0x85, 0x10, 0x21, 0xDA, 0x1D, 0x0E, 0x7E, 0x29, 0x8A, 0x26, 0xF5, 0xE8,
       0x7D, 0x22, 0x58, 0x20, 0x09, 0xF5, 0xC3, 0x2E, 0x75, 0x59, 0x53, 0xD2, 0x84, 0x2A, 0xE8, 0x6A,
       0x74, 0xF2, 0x27, 0x18, 0x77, 0x1F, 0x02, 0x56, 0x52, 0x09, 0x33, 0x9E, 0x45, 0x64, 0x94, 0xCE,
       0xB4, 0xA4, 0x90, 0x7A]"

text \<open>The credential that the authenticator data of the vector holds.\<close>

definition chrome_credential :: AuthenticatorData where
  "chrome_credential =
     \<lparr> ad_Flags = 0x45, ad_Counter = 0,
           ad_AAGUID = [
         0xAD, 0xCE, 0x00, 0x02, 0x35, 0xBC, 0xC6, 0x0A, 0x64, 0x8B, 0x0B, 0x25, 0xF1, 0xF0, 0x55, 0x03],
           ad_CredentialID = [
         0x67, 0xCD, 0x03, 0x99, 0xF8, 0x45, 0x2A, 0xB4, 0x82, 0xC1, 0xB3, 0x20, 0x1E, 0xA4, 0x99, 0xAC,
         0xF3, 0x2C, 0xB7, 0xB4, 0x82, 0x84, 0x4F, 0xFB, 0x54, 0x06, 0xE2, 0xE8, 0xB1, 0xC3, 0xEC, 0xD3],
           ad_Algorithm = - 7,
           ad_PublicKey = Ecdsa_pointer (Some \<lparr> ecdsa_Curve = P256,
             ecdsa_X = 70258227956827456570690350961847729255691489214207053801856849628538309306493,
             ecdsa_Y = 4505040261173557803887171607155316268007004172442905978590897705771983999098 \<rparr>),
           ad_Extensions = [] \<rparr>"

text \<open>
  Authenticator data of an assertion: the SHA-256 digest of \<open>localhost\<close>, the flags UP and
  UV, and the counter 7.
\<close>

definition assertion_authData :: bytes where
  "assertion_authData = take 32 chrome_authData @ [0x05, 0x00, 0x00, 0x00, 0x07]"

definition example_key :: PublicKey where
  "example_key = Ecdsa_pointer (Some \<lparr> ecdsa_Curve = P256, ecdsa_X = 1, ecdsa_Y = 2 \<rparr>)"

text \<open>
  A library instance for the concrete examples: \<open>json_decode\<close> holds the values of the
  three client data texts above and \<open>sha256_Sum\<close> the SHA-256 digest of \<open>localhost\<close>; on
  the other inputs, which the examples do not reach, the decoder reports a syntax error
  and the digests are zero bytes. Every signature primitive accepts, so that the examples
  reach the checks of the package itself whatever the signature bytes are.
\<close>

definition example_lib :: stdlib where
  "example_lib =
     \<lparr> json_decode = (\<lambda>b.
         if b = bytes_of chrome_clientData then
           Some (JObject [(''type'', JString ''webauthn.create''),
                          (''challenge'', JString ''8XJI5cQqW-VqtSPO7JIpUg''),
                          (''origin'', JString ''http://localhost:8080''),
                          (''crossOrigin'', JBool False)])
         else if b = bytes_of get_clientData then
           Some (JObject [(''type'', JString ''webauthn.get''),
                          (''challenge'', JString ''8XJI5cQqW-VqtSPO7JIpUg''),
                          (''origin'', JString ''http://localhost:8080''),
                          (''crossOrigin'', JBool False)])
         else if b = bytes_of bare_clientData then
           Some (JObject [(''type'', JString ''webauthn.get''),
                          (''origin'', JString ''http://localhost:8080'')])
         else None),
       sha256_Sum = (\<lambda>m.
         if m = bytes_of ''localhost'' then [
           0x49, 0x96, 0x0D, 0xE5, 0x88, 0x0E, 0x8C, 0x68,
           0x74, 0x34, 0x17, 0x0F, 0x64, 0x76, 0x60, 0x5B,
           0x8F, 0xE4, 0xAE, 0xB9, 0xA2, 0x86, 0x32, 0xC7,
           0x99, 0x5C, 0xF3, 0xBA, 0x83, 0x1D, 0x97, 0x63]
         else replicate 32 0),
       sha512_Sum384 = (\<lambda>m. replicate 48 0),
       sha512_Sum = (\<lambda>m. replicate 64 0),
       ecdsa_VerifyASN1 = (\<lambda>k h s. True),
       ed25519_Verify = (\<lambda>k m s. True),
       rsa_VerifyPKCS1v15 = (\<lambda>k h d s. True) \<rparr>"

text \<open>
  More client data texts. \<open>create_bare_clientData\<close> has the type of an attestation and no
  challenge member, and \<open>create_empty_clientData\<close> a challenge that is the empty string.
  \<open>twice_clientData\<close> has two type members, and \<open>twice_mutated_clientData\<close> is the same text
  with the value of the first one changed. \<open>null_clientData\<close> ends with a type member of
  value \<open>null\<close>, and \<open>null_mutated_clientData\<close> is the same text with the value of the first
  type member changed.
\<close>

definition create_bare_clientData :: string where
  \<open>create_bare_clientData =
     ''{"type":"webauthn.create","origin":"http://localhost:8080"}''\<close>

definition create_empty_clientData :: string where
  \<open>create_empty_clientData =
     ''{"type":"webauthn.create","challenge":"","origin":"http://localhost:8080"}''\<close>

definition twice_clientData :: string where
  \<open>twice_clientData =
     ''{"type":"webauthn.create","type":"webauthn.create","challenge":"8XJI5cQqW-VqtSPO7JIpUg","origin":"http://localhost:8080"}''\<close>

definition twice_mutated_clientData :: string where
  \<open>twice_mutated_clientData =
     ''{"type":"webauthn.get","type":"webauthn.create","challenge":"8XJI5cQqW-VqtSPO7JIpUg","origin":"http://localhost:8080"}''\<close>

definition null_clientData :: string where
  \<open>null_clientData =
     ''{"type":"webauthn.create","challenge":"8XJI5cQqW-VqtSPO7JIpUg","origin":"http://localhost:8080","type":null}''\<close>

definition null_mutated_clientData :: string where
  \<open>null_mutated_clientData =
     ''{"type":"webauthn.get","challenge":"8XJI5cQqW-VqtSPO7JIpUg","origin":"http://localhost:8080","type":null}''\<close>

text \<open>
  The library instance \<open>example_lib\<close> with the values of these six texts in place of its
  three. \<open>encoding/json\<close> hands the members of an object to the struct in the order of the
  text, repeated names included.
\<close>

definition variant_lib :: stdlib where
  "variant_lib = example_lib \<lparr> json_decode := (\<lambda>b.
         if b = bytes_of create_bare_clientData then
           Some (JObject [(''type'', JString ''webauthn.create''),
                          (''origin'', JString ''http://localhost:8080'')])
         else if b = bytes_of create_empty_clientData then
           Some (JObject [(''type'', JString ''webauthn.create''),
                          (''challenge'', JString []),
                          (''origin'', JString ''http://localhost:8080'')])
         else if b = bytes_of twice_clientData then
           Some (JObject [(''type'', JString ''webauthn.create''),
                          (''type'', JString ''webauthn.create''),
                          (''challenge'', JString ''8XJI5cQqW-VqtSPO7JIpUg''),
                          (''origin'', JString ''http://localhost:8080'')])
         else if b = bytes_of twice_mutated_clientData then
           Some (JObject [(''type'', JString ''webauthn.get''),
                          (''type'', JString ''webauthn.create''),
                          (''challenge'', JString ''8XJI5cQqW-VqtSPO7JIpUg''),
                          (''origin'', JString ''http://localhost:8080'')])
         else if b = bytes_of null_clientData then
           Some (JObject [(''type'', JString ''webauthn.create''),
                          (''challenge'', JString ''8XJI5cQqW-VqtSPO7JIpUg''),
                          (''origin'', JString ''http://localhost:8080''),
                          (''type'', JNull)])
         else if b = bytes_of null_mutated_clientData then
           Some (JObject [(''type'', JString ''webauthn.get''),
                          (''challenge'', JString ''8XJI5cQqW-VqtSPO7JIpUg''),
                          (''origin'', JString ''http://localhost:8080''),
                          (''type'', JNull)])
         else None) \<rparr>"

section \<open>Properties of VerifySignature\<close>

lemmas alg_defs = ES256_def ES384_def ES512_def EdDSA_def RS256_def RS384_def RS512_def

lemma VerifySignature_error_kind:
  "VerifySignature lib pub alg data sig = Inl e \<Longrightarrow>
     kind e = AlgorithmKeyMismatch \<or> kind e = InvalidSignature \<or> kind e = UnsupportedAlgorithm
       \<or> kind e = RuntimePanic"
  by (auto simp: VerifySignature_def verify_ecdsa_def verify_ed25519_def verify_rsa_def
           split: if_splits PublicKey.splits option.splits)

text \<open>
  Claim C5. For every algorithm tag outside the recognised set
  \<open>{-7, -35, -36, -8, -257, -258, -259}\<close>, and for every public key, message and signature,
  \<open>VerifySignature\<close> fails, and the failure is the "unsupported signing algorithm" error,
  of kind \<open>UnsupportedAlgorithm\<close>: no library primitive decides the result.
\<close>

theorem VerifySignature_unknown_algorithm:
  assumes "alg \<notin> {-7, -35, -36, -8, -257, -258, -259}"
  shows "VerifySignature lib pub alg data sig = Inl (Err_unsupported_signing_algorithm alg)
         \<and> kind (Err_unsupported_signing_algorithm alg) = UnsupportedAlgorithm"
  using assms by (simp add: VerifySignature_def alg_defs)

theorem VerifySignature_unknown_algorithm_witness:
  "(-9999 :: int) \<notin> {-7, -35, -36, -8, -257, -258, -259}
   \<and> VerifySignature example_lib example_key (-9999) [1, 2] [3]
       = Inl (Err_unsupported_signing_algorithm (-9999))"
  using VerifySignature_unknown_algorithm [of "-9999" example_lib example_key "[1, 2]" "[3]"]
  by simp

text \<open>
  Claim C9. With the algorithm EdDSA, \<open>VerifySignature\<close> succeeds only on a non-nil pointer
  to an \<open>ed25519.PublicKey\<close> (of 32 bytes, whose signature the library accepts). A key of
  any other dynamic type, the plain \<open>ed25519.PublicKey\<close> value included, is rejected with
  the "invalid public key type" error, of kind \<open>AlgorithmKeyMismatch\<close>, whatever the
  library says about the signature.
\<close>

theorem VerifySignature_EdDSA_pointer_only:
  "(VerifySignature lib pub EdDSA data sig = Inr () \<longrightarrow>
      (\<exists>k. pub = Ed25519_pointer (Some k) \<and> length k = 32 \<and> ed25519_Verify lib k data sig))
   \<and> ((\<forall>p. pub \<noteq> Ed25519_pointer p) \<longrightarrow>
      VerifySignature lib pub EdDSA data sig = Inl (Err_invalid_public_key_type EdDSA))
   \<and> kind (Err_invalid_public_key_type EdDSA) = AlgorithmKeyMismatch"
  by (auto simp: VerifySignature_def verify_ed25519_def alg_defs
           split: PublicKey.splits option.splits if_splits)

theorem VerifySignature_EdDSA_pointer_only_witness:
  "VerifySignature example_lib (Ed25519_pointer (Some (replicate 32 7))) EdDSA [1, 2] [3] = Inr ()
   \<and> (\<forall>p. Ed25519_value (replicate 32 7) \<noteq> Ed25519_pointer p)
   \<and> ed25519_Verify example_lib (replicate 32 7) [1, 2] [3]
   \<and> VerifySignature example_lib (Ed25519_value (replicate 32 7)) EdDSA [1, 2] [3]
       = Inl (Err_invalid_public_key_type EdDSA)"
  using VerifySignature_EdDSA_pointer_only
          [of example_lib "Ed25519_value (replicate 32 7)" "[1, 2]" "[3]"]
        VerifySignature_EdDSA_pointer_only
          [of example_lib "Ed25519_pointer (Some (replicate 32 7))" "[1, 2]" "[3]"]
  by (simp add: VerifySignature_def verify_ed25519_def alg_defs example_lib_def)

section \<open>The challenge comparison\<close>

lemma xor_zero_eq: "a XOR b = 0 \<Longrightarrow> a = (b::byte)"
  by (metis xor.assoc xor_self_eq xor.right_neutral xor.left_neutral)

lemma fold_or_zero:
  "foldl (\<lambda>v (a, b). v OR (a XOR b)) (v0::byte) ps = 0
     \<longleftrightarrow> v0 = 0 \<and> (\<forall>(a, b) \<in> set ps. a = b)"
  by (induction ps arbitrary: v0) (auto simp: or_eq_0_iff dest: xor_zero_eq)

lemma small_drop:
  assumes "unat (w :: 32 word) < 2 ^ 31"
  shows "drop_bit 31 w = 0"
proof -
  have "unat (drop_bit 31 w) = drop_bit 31 (unat w)" by (rule unat_drop_bit_eq)
  also have "\<dots> = unat w div 2 ^ 31" by (rule drop_bit_eq_div)
  finally have "unat (drop_bit 31 w) = 0" using assms by simp
  then show ?thesis by (simp add: unat_eq_0)
qed

lemma ByteEq_zero: "ConstantTimeByteEq v 0 = 1 \<longleftrightarrow> v = 0"
proof (cases "v = 0")
  case True
  then show ?thesis by (simp add: ConstantTimeByteEq_def drop_bit_eq_div)
next
  case False
  let ?w = "ucast v :: 32 word"
  have b: "unat v < 2 ^ 8" using unsigned_less [of v, where ?'a = nat] by simp
  have "unat ?w = take_bit 32 (unat v)"
    using unsigned_ucast_eq [of v, where 'c = 32 and 'a = nat] by simp
  with b have u: "unat ?w = unat v" by (simp add: take_bit_nat_eq_self)
  from False have nz: "?w \<noteq> 0" using u by (metis unat_eq_0)
  from b nz u have "unat (?w - 1) < 2 ^ 31" by (simp add: unat_minus_one)
  then have "drop_bit 31 (?w - 1) = 0" by (rule small_drop)
  with False show ?thesis by (simp add: ConstantTimeByteEq_def)
qed

lemma Equal_iff: "Equal c b \<longleftrightarrow> c = b"
proof (cases "length c = length b")
  case True
  then show ?thesis
    by (simp add: Equal_def ConstantTimeCompare_def ByteEq_zero fold_or_zero list_eq_iff_zip_eq)
next
  case False
  then show ?thesis by (auto simp: Equal_def ConstantTimeCompare_def)
qed

section \<open>The concrete inputs, evaluated\<close>

lemma decode_chrome_challenge:
  "RawURLEncoding_DecodeString ''8XJI5cQqW-VqtSPO7JIpUg'' = Some chrome_challenge"
  by (simp add: RawURLEncoding_DecodeString_def b64url_value_def chrome_challenge_def)

lemmas store_defs = store_member_def names_field_def store_string_def store_bool_def
  UnmarshalJSON_def zero_clientData_def

lemma texts_differ:
  "bytes_of chrome_clientData \<noteq> bytes_of get_clientData"
  "bytes_of bare_clientData \<noteq> bytes_of get_clientData"
  "bytes_of bare_clientData \<noteq> bytes_of chrome_clientData"
  by (simp_all add: bytes_of_def chrome_clientData_def get_clientData_def bare_clientData_def)

lemma decode_chrome:
  "json_Unmarshal example_lib (bytes_of chrome_clientData) =
     Some \<lparr> cd_Type = ''webauthn.create'', cd_Challenge = chrome_challenge,
            cd_Origin = ''http://localhost:8080'', cd_TopOrigin = [], cd_CrossOrigin = False \<rparr>"
  by (simp add: json_Unmarshal_def example_lib_def store_defs decode_chrome_challenge)

lemma decode_get:
  "json_Unmarshal example_lib (bytes_of get_clientData) =
     Some \<lparr> cd_Type = ''webauthn.get'', cd_Challenge = chrome_challenge,
            cd_Origin = ''http://localhost:8080'', cd_TopOrigin = [], cd_CrossOrigin = False \<rparr>"
  using texts_differ
  by (simp add: json_Unmarshal_def example_lib_def store_defs decode_chrome_challenge)

lemma decode_bare:
  "json_Unmarshal example_lib (bytes_of bare_clientData) =
     Some \<lparr> cd_Type = ''webauthn.get'', cd_Challenge = [],
            cd_Origin = ''http://localhost:8080'', cd_TopOrigin = [], cd_CrossOrigin = False \<rparr>"
  using texts_differ
  by (simp add: json_Unmarshal_def example_lib_def store_defs)

lemma assertion_authData_eval:
  "assertion_authData = sha256_Sum example_lib (bytes_of ''localhost'') @ [0x05, 0x00, 0x00, 0x00, 0x07]"
  by (simp add: assertion_authData_def chrome_authData_def example_lib_def)

lemma assertion_example:
  "VerifyAssertion example_lib localhost_rp example_key ES256 chrome_challenge
     (bytes_of get_clientData) assertion_authData [0x30]
   = Inr \<lparr> Flags = 5, Counter = 7 \<rparr>"
  apply (simp add: VerifyAssertion_def decode_get Equal_iff localhost_rp_def Let_def)
  apply (simp add: VerifySignature_def verify_ecdsa_def example_key_def alg_defs)
  apply (simp add: example_lib_def assertion_authData_def chrome_authData_def BigEndian_Uint32_def)
  done

section \<open>Properties of VerifyAssertion and of the relying party check\<close>

lemma take4_drop:
  "n + 4 \<le> length xs \<Longrightarrow> take 4 (drop n xs) = [xs ! n, xs ! (n + 1), xs ! (n + 2), xs ! (n + 3)]"
  apply (auto simp: list_eq_iff_nth_eq nth_Cons')
    apply (rule arg_cong [where f = "(!) xs"], arith)+
  done

text \<open>
  Claim C2. Whenever \<open>VerifyAssertion\<close> succeeds, \<open>VerifySignature\<close> has accepted the
  signature, for the given key and algorithm, over the authenticator data followed by the
  SHA-256 digest of the client data; the authenticator data has at least 37 bytes; and the
  result is exactly the flags byte at offset 32 and the big-endian 32-bit counter of the
  bytes at offsets 33 to 36.
\<close>

theorem VerifyAssertion_success:
  assumes "VerifyAssertion lib rp pub alg challenge clientDataJSON authData sig = Inr a"
  shows "VerifySignature lib pub alg (authData @ sha256_Sum lib clientDataJSON) sig = Inr ()
         \<and> 37 \<le> length authData
         \<and> a = \<lparr> Flags = authData ! 32,
                 Counter = BigEndian_Uint32 [authData ! 33, authData ! 34, authData ! 35,
                                             authData ! 36] \<rparr>"
  using assms
  by (auto simp: VerifyAssertion_def Let_def take4_drop split: option.splits if_splits sum.splits)

theorem VerifyAssertion_success_witness:
  "VerifyAssertion example_lib localhost_rp example_key ES256 chrome_challenge
     (bytes_of get_clientData) assertion_authData [0x30] = Inr \<lparr> Flags = 5, Counter = 7 \<rparr>
   \<and> VerifySignature example_lib example_key ES256
        (assertion_authData @ sha256_Sum example_lib (bytes_of get_clientData)) [0x30] = Inr ()
   \<and> 37 \<le> length assertion_authData
   \<and> assertion_authData ! 32 = 5
   \<and> BigEndian_Uint32 [assertion_authData ! 33, assertion_authData ! 34,
                        assertion_authData ! 35, assertion_authData ! 36] = 7"
  using VerifyAssertion_success [OF assertion_example] assertion_example
  by simp

lemma parseAttestationObject_error_kind:
  "parseAttestationObject b = Inl e \<Longrightarrow> kind e = MalformedAttestation"
  by (auto simp: parseAttestationObject_def split: option.splits if_splits prod.splits)

lemma ParseAuthenticatorData_error_kind:
  "ParseAuthenticatorData lib rpID b = Inl e \<Longrightarrow>
     kind e = MalformedAuthData \<or> kind e = RelyingPartyMismatch \<or> kind e = MalformedCOSEKey"
  by (auto simp: ParseAuthenticatorData_def Let_def split: option.splits if_splits prod.splits)

text \<open>
  Claim C4. On an input of at least 32 bytes whose first 32 bytes differ from the SHA-256
  digest of the relying party identifier, \<open>ParseAuthenticatorData\<close> fails with the
  relying-party mismatch error, and no input whose 32-byte prefix differs from the digest
  is ever accepted. \<open>VerifyAssertion\<close> makes the same comparison on its authenticator
  data: it never accepts a differing prefix, and once the client data and the signature
  have passed, a differing prefix is the relying-party mismatch error.
\<close>

theorem rpid_hash_check:
  "(32 \<le> length b \<and> take 32 b \<noteq> sha256_Sum lib (bytes_of rpID) \<longrightarrow>
      ParseAuthenticatorData lib rpID b = Inl Err_authenticator_data_doesnt_match_relying_party_ID)
   \<and> kind Err_authenticator_data_doesnt_match_relying_party_ID = RelyingPartyMismatch
   \<and> (take 32 b \<noteq> sha256_Sum lib (bytes_of rpID) \<longrightarrow>
        (\<forall>ad. ParseAuthenticatorData lib rpID b \<noteq> Inr ad))
   \<and> (take 32 authData \<noteq> sha256_Sum lib (bytes_of (rp_ID rp)) \<longrightarrow>
        (\<forall>a. VerifyAssertion lib rp pub alg challenge clientDataJSON authData sig \<noteq> Inr a))
   \<and> (32 \<le> length authData \<and> take 32 authData \<noteq> sha256_Sum lib (bytes_of (rp_ID rp))
        \<and> json_Unmarshal lib clientDataJSON = Some cd \<and> cd_Type cd = ''webauthn.get''
        \<and> cd_Origin cd = rp_Origin rp \<and> cd_Challenge cd = challenge
        \<and> VerifySignature lib pub alg (authData @ sha256_Sum lib clientDataJSON) sig = Inr ()
      \<longrightarrow> VerifyAssertion lib rp pub alg challenge clientDataJSON authData sig
            = Inl Err_assertion_issued_for_different_relying_party)
   \<and> kind Err_assertion_issued_for_different_relying_party = RelyingPartyMismatch"
  by (auto simp: ParseAuthenticatorData_def VerifyAssertion_def Let_def Equal_iff
           split: option.splits if_splits prod.splits sum.splits)

lemma flipped_differs:
  "take 32 (0x48 # drop 1 assertion_authData) \<noteq> sha256_Sum example_lib (bytes_of ''localhost'')"
  "length (0x48 # drop 1 assertion_authData) = 37"
  by (simp_all add: example_lib_def assertion_authData_def chrome_authData_def)

theorem rpid_hash_check_witness:
  "32 \<le> length (0x48 # drop 1 assertion_authData)
   \<and> take 32 (0x48 # drop 1 assertion_authData) \<noteq> sha256_Sum example_lib (bytes_of ''localhost'')
   \<and> ParseAuthenticatorData example_lib ''localhost'' (0x48 # drop 1 assertion_authData)
       = Inl Err_authenticator_data_doesnt_match_relying_party_ID
   \<and> VerifyAssertion example_lib localhost_rp example_key ES256 chrome_challenge
        (bytes_of get_clientData) (0x48 # drop 1 assertion_authData) [0x30]
       = Inl Err_assertion_issued_for_different_relying_party"
proof -
  have sig: "VerifySignature example_lib example_key ES256
               ((0x48 # drop 1 assertion_authData) @ sha256_Sum example_lib (bytes_of get_clientData))
               [0x30] = Inr ()"
    by (simp add: VerifySignature_def verify_ecdsa_def example_key_def alg_defs example_lib_def)
  show ?thesis
    using flipped_differs sig decode_get
      rpid_hash_check [of "0x48 # drop 1 assertion_authData" example_lib "''localhost''"
        "0x48 # drop 1 assertion_authData" localhost_rp
        example_key ES256 chrome_challenge "bytes_of get_clientData" "[0x30]"
        "\<lparr> cd_Type = ''webauthn.get'', cd_Challenge = chrome_challenge,
            cd_Origin = ''http://localhost:8080'', cd_TopOrigin = [], cd_CrossOrigin = False \<rparr>"]
    by (simp add: localhost_rp_def)
qed

section \<open>The decoder on the concrete inputs\<close>

lemma skip_items_0: "skip_items 0 bs = Some bs"
  by (simp add: skip_items.simps)

lemma skip_items_pos:
  "0 < n \<Longrightarrow> skip_items n bs =
     (case read_head bs of
        None \<Rightarrow> None
      | Some (major, k, rest) \<Rightarrow>
          if major = 2 \<or> major = 3 then
            (if length rest < k then None else skip_items (n - 1) (drop k rest))
          else if major = 4 then skip_items (n - 1 + k) rest
          else if major = 5 then skip_items (n - 1 + 2 * k) rest
          else if major = 6 then skip_items n rest
          else skip_items (n - 1) rest)"
  by (subst skip_items.simps) simp

lemma map_entries_numeral:
  "map_entries (numeral k) entry_fn vars bs =
     (case entry_fn vars bs of
        None \<Rightarrow> None
      | Some (vars', bs') \<Rightarrow> map_entries (pred_numeral k) entry_fn vars' bs')"
  by (simp add: numeral_eq_Suc)

lemmas cbor_defs = read_head_def read_arg_def be_nat_def string_of_def cbor_Int_def cbor_Bytes_def
  cbor_String_def cbor_Skip_def cbor_Raw_def cbor_Map_def cbor_Done_def cbor_Rest_def
  skip_items_0 skip_items_pos map_entries_numeral Let_def char_of_eq_iff

lemma parse_chrome:
  "parseAttestationObject chrome_attestationObject =
     Inr \<lparr> Format = ''packed'', AttestationStatement = chrome_attStmt,
           AuthenticatorData = chrome_authData \<rparr>"
  by (simp add: parseAttestationObject_def chrome_attestationObject_def chrome_attStmt_def
        chrome_authData_def attestation_entry_def cbor_defs)

lemma authData_chrome:
  "ParseAuthenticatorData example_lib ''localhost'' chrome_authData =
     Inr chrome_credential"
  by (simp add: ParseAuthenticatorData_def chrome_authData_def example_lib_def bytes_of_def
        chrome_credential_def BigEndian_Uint32_def BigEndian_Uint16_def cbor_PublicKey_def cose_entry_def
        cose_read_value_def cose_key_def curve_of_def no_members_def alg_defs cbor_defs)

section \<open>Properties of the client data checks\<close>

lemma VerifyAttestation_kind_challenge:
  assumes "json_Unmarshal lib clientDataJSON = Some cd" "cd_Type cd = ''webauthn.create''"
    "cd_Origin cd = rp_Origin rp"
  shows "(\<exists>e. VerifyAttestation lib rp challenge clientDataJSON att = Inl e \<and> kind e = ChallengeMismatch)
           \<longleftrightarrow> cd_Challenge cd \<noteq> challenge"
  using assms
  by (auto simp: VerifyAttestation_def Equal_iff split: sum.splits
           dest!: parseAttestationObject_error_kind ParseAuthenticatorData_error_kind)

lemma VerifyAttestationObject_kind_challenge:
  assumes "json_Unmarshal lib clientDataJSON = Some cd" "cd_Type cd = ''webauthn.create''"
    "cd_Origin cd = rp_Origin rp"
  shows "(\<exists>e. VerifyAttestationObject lib rp challenge clientDataJSON att = Inl e \<and> kind e = ChallengeMismatch)
           \<longleftrightarrow> cd_Challenge cd \<noteq> challenge"
  using assms
  by (auto simp: VerifyAttestationObject_def Equal_iff split: sum.splits
           dest!: parseAttestationObject_error_kind)

lemma VerifyAssertion_kind_challenge:
  assumes "json_Unmarshal lib clientDataJSON = Some cd" "cd_Type cd = ''webauthn.get''"
    "cd_Origin cd = rp_Origin rp"
  shows "(\<exists>e. VerifyAssertion lib rp pub alg challenge clientDataJSON authData sig = Inl e \<and> kind e = ChallengeMismatch)
           \<longleftrightarrow> cd_Challenge cd \<noteq> challenge"
  using assms
  by (auto simp: VerifyAssertion_def Equal_iff Let_def split: sum.splits if_splits
           dest!: VerifySignature_error_kind)

text \<open>
  Claim C6. When the client data decodes and its type and origin checks pass, each of
  \<open>VerifyAttestation\<close>, \<open>VerifyAttestationObject\<close> and \<open>VerifyAssertion\<close> fails with an
  error of kind \<open>ChallengeMismatch\<close> if and only if the decoded challenge of the client
  data is not the caller's challenge, byte for byte; a difference in length is a
  difference.
\<close>

theorem challenge_mismatch_iff:
  assumes "json_Unmarshal lib clientDataJSON = Some cd" and "cd_Origin cd = rp_Origin rp"
  shows "(cd_Type cd = ''webauthn.create'' \<longrightarrow>
            ((\<exists>e. VerifyAttestation lib rp challenge clientDataJSON att = Inl e
                  \<and> kind e = ChallengeMismatch) \<longleftrightarrow> cd_Challenge cd \<noteq> challenge)
          \<and> ((\<exists>e. VerifyAttestationObject lib rp challenge clientDataJSON att = Inl e
                  \<and> kind e = ChallengeMismatch) \<longleftrightarrow> cd_Challenge cd \<noteq> challenge))
       \<and> (cd_Type cd = ''webauthn.get'' \<longrightarrow>
            ((\<exists>e. VerifyAssertion lib rp pub alg challenge clientDataJSON authData sig = Inl e
                  \<and> kind e = ChallengeMismatch) \<longleftrightarrow> cd_Challenge cd \<noteq> challenge))
       \<and> (length (cd_Challenge cd) \<noteq> length challenge \<longrightarrow> \<not> Equal (cd_Challenge cd) challenge)"
  using VerifyAttestation_kind_challenge [OF assms(1) _ assms(2)]
        VerifyAttestationObject_kind_challenge [OF assms(1) _ assms(2)]
        VerifyAssertion_kind_challenge [OF assms(1) _ assms(2)]
  by (auto simp: Equal_iff)

lemma challenge_length: "length chrome_challenge = 16"
  by (simp add: chrome_challenge_def)

theorem challenge_mismatch_iff_witness:
  "json_Unmarshal example_lib (bytes_of chrome_clientData) =
     Some \<lparr> cd_Type = ''webauthn.create'', cd_Challenge = chrome_challenge,
            cd_Origin = ''http://localhost:8080'', cd_TopOrigin = [], cd_CrossOrigin = False \<rparr>
   \<and> ''http://localhost:8080'' = rp_Origin localhost_rp
   \<and> length chrome_challenge \<noteq> length (0x00 # chrome_challenge)
   \<and> (\<exists>e. VerifyAttestation example_lib localhost_rp (0x00 # chrome_challenge)
             (bytes_of chrome_clientData) chrome_attestationObject = Inl e
           \<and> kind e = ChallengeMismatch)
   \<and> (\<exists>e. VerifyAttestationObject example_lib localhost_rp (0x00 # chrome_challenge)
             (bytes_of chrome_clientData) chrome_attestationObject = Inl e
           \<and> kind e = ChallengeMismatch)
   \<and> \<not> (\<exists>e. VerifyAttestation example_lib localhost_rp chrome_challenge
             (bytes_of chrome_clientData) chrome_attestationObject = Inl e
           \<and> kind e = ChallengeMismatch)
   \<and> (\<exists>e. VerifyAssertion example_lib localhost_rp example_key ES256 (0x00 # chrome_challenge)
             (bytes_of get_clientData) assertion_authData [0x30] = Inl e
           \<and> kind e = ChallengeMismatch)"
  using decode_chrome decode_get
    challenge_mismatch_iff [OF decode_chrome, where rp = localhost_rp
      and challenge = "0x00 # chrome_challenge" and att = chrome_attestationObject]
    challenge_mismatch_iff [OF decode_chrome, where rp = localhost_rp
      and challenge = chrome_challenge and att = chrome_attestationObject]
    challenge_mismatch_iff [OF decode_get, where rp = localhost_rp and pub = example_key
      and alg = ES256 and challenge = "0x00 # chrome_challenge"
      and authData = assertion_authData and sig = "[0x30]"]
  by (simp add: localhost_rp_def)

lemma store_member_keeps_challenge:
  "\<not> names_field (fst kv) ''challenge'' \<Longrightarrow> store_member cd kv = Some cd'
     \<Longrightarrow> cd_Challenge cd' = cd_Challenge cd"
  by (auto simp: store_member_def Let_def split: if_splits)

lemma store_members_keep_challenge:
  "\<forall>kv \<in> set kvs. \<not> names_field (fst kv) ''challenge'' \<Longrightarrow> store_members cd kvs = Some cd'
     \<Longrightarrow> cd_Challenge cd' = cd_Challenge cd"
proof (induction kvs arbitrary: cd)
  case Nil
  then show ?case by simp
next
  case (Cons kv kvs)
  then show ?case
    by (auto split: option.splits dest: store_member_keeps_challenge)
qed

lemma no_challenge_member:
  assumes "json_decode lib clientDataJSON = Some (JObject members)"
    and "\<forall>kv \<in> set members. \<not> names_field (fst kv) ''challenge''"
    and "json_Unmarshal lib clientDataJSON = Some cd"
  shows "cd_Challenge cd = []"
  using assms store_members_keep_challenge [of members zero_clientData cd]
  by (simp add: json_Unmarshal_def zero_clientData_def)

section \<open>The variant texts, evaluated\<close>

lemma byte_of_char_inj: "(of_nat (of_char c) :: byte) = of_nat (of_char d) \<Longrightarrow> c = d"
proof -
  assume eq: "(of_nat (of_char c) :: byte) = of_nat (of_char d)"
  have u: "\<And>x. unat (of_nat (of_char x) :: byte) = of_char x"
    by (simp add: unat_of_nat)
  from eq have "unat (of_nat (of_char c) :: byte) = unat (of_nat (of_char d) :: byte)" by simp
  then have "(of_char c :: nat) = of_char d" by (simp only: u)
  then show "c = d" by simp
qed

lemma bytes_of_eq_iff: "bytes_of a = bytes_of b \<longleftrightarrow> a = b"
proof -
  have "inj (\<lambda>c. of_nat (of_char c) :: byte)"
    by (rule injI) (rule byte_of_char_inj)
  then show ?thesis
    unfolding bytes_of_def by (rule inj_map_eq_map)
qed

lemmas variant_texts = create_bare_clientData_def create_empty_clientData_def twice_clientData_def
  twice_mutated_clientData_def null_clientData_def null_mutated_clientData_def

lemma decode_create_bare:
  "json_Unmarshal variant_lib (bytes_of create_bare_clientData) =
     Some \<lparr> cd_Type = ''webauthn.create'', cd_Challenge = [],
            cd_Origin = ''http://localhost:8080'', cd_TopOrigin = [], cd_CrossOrigin = False \<rparr>"
  by (simp add: json_Unmarshal_def variant_lib_def store_defs)

lemma empty_string_decodes: "RawURLEncoding_DecodeString [] = Some []"
  by (simp add: RawURLEncoding_DecodeString_def)

lemma decode_create_empty:
  "json_Unmarshal variant_lib (bytes_of create_empty_clientData) =
     Some \<lparr> cd_Type = ''webauthn.create'', cd_Challenge = [],
            cd_Origin = ''http://localhost:8080'', cd_TopOrigin = [], cd_CrossOrigin = False \<rparr>"
  by (simp add: json_Unmarshal_def variant_lib_def store_defs bytes_of_eq_iff variant_texts
        empty_string_decodes)

lemma decode_twice:
  "json_Unmarshal variant_lib (bytes_of twice_clientData) =
     Some \<lparr> cd_Type = ''webauthn.create'', cd_Challenge = chrome_challenge,
            cd_Origin = ''http://localhost:8080'', cd_TopOrigin = [], cd_CrossOrigin = False \<rparr>"
  by (simp add: json_Unmarshal_def variant_lib_def store_defs bytes_of_eq_iff variant_texts
        decode_chrome_challenge)

lemma decode_twice_mutated:
  "json_Unmarshal variant_lib (bytes_of twice_mutated_clientData) =
     Some \<lparr> cd_Type = ''webauthn.create'', cd_Challenge = chrome_challenge,
            cd_Origin = ''http://localhost:8080'', cd_TopOrigin = [], cd_CrossOrigin = False \<rparr>"
  by (simp add: json_Unmarshal_def variant_lib_def store_defs bytes_of_eq_iff variant_texts
        decode_chrome_challenge)

lemma decode_null:
  "json_Unmarshal variant_lib (bytes_of null_clientData) =
     Some \<lparr> cd_Type = ''webauthn.create'', cd_Challenge = chrome_challenge,
            cd_Origin = ''http://localhost:8080'', cd_TopOrigin = [], cd_CrossOrigin = False \<rparr>"
  by (simp add: json_Unmarshal_def variant_lib_def store_defs bytes_of_eq_iff variant_texts
        decode_chrome_challenge)

lemma variant_authData:
  "ParseAuthenticatorData variant_lib rpID b = ParseAuthenticatorData example_lib rpID b"
  by (simp add: ParseAuthenticatorData_def variant_lib_def)

section \<open>Properties of the client data checks, continued\<close>

text \<open>
  Claim C10. When the client data decodes and either has no member that names the
  challenge field or has a challenge that decodes to zero bytes, the challenge comparison
  against an empty caller challenge succeeds, and no operation asks for a minimum length
  of the challenge: none of \<open>VerifyAttestation\<close>, \<open>VerifyAttestationObject\<close> and
  \<open>VerifyAssertion\<close> fails with an error of kind \<open>ChallengeMismatch\<close>, and each of them
  succeeds as soon as its other checks pass. For the two attestation operations these
  are the type, the origin and the parsing of the attestation object (and of its
  authenticator data); for \<open>VerifyAssertion\<close> the type, the origin, the signature, and the
  digest and length of the authenticator data.
\<close>

theorem empty_challenge_passes:
  assumes "json_Unmarshal lib clientDataJSON = Some cd"
    and "(\<exists>members. json_decode lib clientDataJSON = Some (JObject members)
            \<and> (\<forall>kv \<in> set members. \<not> names_field (fst kv) ''challenge''))
         \<or> cd_Challenge cd = []"
  shows "Equal (cd_Challenge cd) []
       \<and> (\<forall>e. VerifyAttestation lib rp [] clientDataJSON att = Inl e \<longrightarrow> kind e \<noteq> ChallengeMismatch)
       \<and> (\<forall>e. VerifyAttestationObject lib rp [] clientDataJSON att = Inl e
              \<longrightarrow> kind e \<noteq> ChallengeMismatch)
       \<and> (\<forall>e. VerifyAssertion lib rp pub alg [] clientDataJSON authData sig = Inl e
              \<longrightarrow> kind e \<noteq> ChallengeMismatch)
       \<and> (cd_Type cd = ''webauthn.create'' \<and> cd_Origin cd = rp_Origin rp \<longrightarrow>
            (\<forall>attObj. parseAttestationObject att = Inr attObj \<longrightarrow>
               VerifyAttestationObject lib rp [] clientDataJSON att = Inr attObj
               \<and> (\<forall>data. ParseAuthenticatorData lib (rp_ID rp) (AuthenticatorData attObj) = Inr data
                      \<longrightarrow> VerifyAttestation lib rp [] clientDataJSON att = Inr data)))
       \<and> (cd_Type cd = ''webauthn.get'' \<and> cd_Origin cd = rp_Origin rp
            \<and> VerifySignature lib pub alg (authData @ sha256_Sum lib clientDataJSON) sig = Inr ()
            \<and> 37 \<le> length authData
            \<and> take 32 authData = sha256_Sum lib (bytes_of (rp_ID rp)) \<longrightarrow>
            VerifyAssertion lib rp pub alg [] clientDataJSON authData sig
              = Inr \<lparr> Flags = authData ! 32,
                      Counter = BigEndian_Uint32 [authData ! 33, authData ! 34, authData ! 35,
                                                  authData ! 36] \<rparr>)"
proof -
  from assms have empty: "cd_Challenge cd = []"
    by (auto dest: no_challenge_member)
  have "\<forall>e. VerifyAttestation lib rp [] clientDataJSON att = Inl e \<longrightarrow> kind e \<noteq> ChallengeMismatch"
    using assms(1) empty
    by (auto simp: VerifyAttestation_def Equal_iff split: sum.splits if_splits
             dest!: parseAttestationObject_error_kind ParseAuthenticatorData_error_kind)
  moreover
  have "\<forall>e. VerifyAttestationObject lib rp [] clientDataJSON att = Inl e
          \<longrightarrow> kind e \<noteq> ChallengeMismatch"
    using assms(1) empty
    by (auto simp: VerifyAttestationObject_def Equal_iff split: sum.splits if_splits
             dest!: parseAttestationObject_error_kind)
  moreover
  have "\<forall>e. VerifyAssertion lib rp pub alg [] clientDataJSON authData sig = Inl e
          \<longrightarrow> kind e \<noteq> ChallengeMismatch"
    using assms(1) empty
    by (auto simp: VerifyAssertion_def Equal_iff Let_def split: sum.splits if_splits
             dest!: VerifySignature_error_kind)
  moreover
  have "cd_Type cd = ''webauthn.create'' \<and> cd_Origin cd = rp_Origin rp \<longrightarrow>
          (\<forall>attObj. parseAttestationObject att = Inr attObj \<longrightarrow>
             VerifyAttestationObject lib rp [] clientDataJSON att = Inr attObj
             \<and> (\<forall>data. ParseAuthenticatorData lib (rp_ID rp) (AuthenticatorData attObj) = Inr data
                    \<longrightarrow> VerifyAttestation lib rp [] clientDataJSON att = Inr data))"
    using assms(1) empty
    by (simp add: VerifyAttestation_def VerifyAttestationObject_def Equal_iff)
  moreover
  have "cd_Type cd = ''webauthn.get'' \<and> cd_Origin cd = rp_Origin rp
          \<and> VerifySignature lib pub alg (authData @ sha256_Sum lib clientDataJSON) sig = Inr ()
          \<and> 37 \<le> length authData
          \<and> take 32 authData = sha256_Sum lib (bytes_of (rp_ID rp)) \<longrightarrow>
          VerifyAssertion lib rp pub alg [] clientDataJSON authData sig
            = Inr \<lparr> Flags = authData ! 32,
                    Counter = BigEndian_Uint32 [authData ! 33, authData ! 34, authData ! 35,
                                                authData ! 36] \<rparr>"
    using assms(1) empty
    by (auto simp: VerifyAssertion_def Equal_iff Let_def take4_drop)
  ultimately show ?thesis using empty by (simp add: Equal_iff)
qed

lemma bare_assertion:
  "VerifyAssertion example_lib localhost_rp example_key ES256 []
     (bytes_of bare_clientData) assertion_authData [0x30]
   = Inr \<lparr> Flags = 5, Counter = 7 \<rparr>"
  apply (simp add: VerifyAssertion_def decode_bare Equal_iff localhost_rp_def Let_def)
  apply (simp add: VerifySignature_def verify_ecdsa_def example_key_def alg_defs)
  apply (simp add: example_lib_def assertion_authData_def chrome_authData_def BigEndian_Uint32_def)
  done

theorem empty_challenge_passes_witness:
  "json_Unmarshal variant_lib (bytes_of create_bare_clientData) =
     Some \<lparr> cd_Type = ''webauthn.create'', cd_Challenge = [],
            cd_Origin = ''http://localhost:8080'', cd_TopOrigin = [], cd_CrossOrigin = False \<rparr>
   \<and> \<not> names_field ''type'' ''challenge'' \<and> \<not> names_field ''origin'' ''challenge''
   \<and> Equal [] []
   \<and> VerifyAttestationObject variant_lib localhost_rp [] (bytes_of create_bare_clientData)
        chrome_attestationObject
       = Inr \<lparr> Format = ''packed'', AttestationStatement = chrome_attStmt,
               AuthenticatorData = chrome_authData \<rparr>
   \<and> VerifyAttestation variant_lib localhost_rp [] (bytes_of create_bare_clientData)
        chrome_attestationObject = Inr chrome_credential
   \<and> VerifyAttestation variant_lib localhost_rp [] (bytes_of create_empty_clientData)
        chrome_attestationObject = Inr chrome_credential
   \<and> VerifyAssertion example_lib localhost_rp example_key ES256 []
        (bytes_of bare_clientData) assertion_authData [0x30] = Inr \<lparr> Flags = 5, Counter = 7 \<rparr>"
proof -
  let ?cd = "\<lparr> cd_Type = ''webauthn.create'', cd_Challenge = [],
              cd_Origin = ''http://localhost:8080'', cd_TopOrigin = [], cd_CrossOrigin = False \<rparr>"
  have none: "(\<exists>members. json_decode variant_lib (bytes_of create_bare_clientData)
                   = Some (JObject members)
                 \<and> (\<forall>kv \<in> set members. \<not> names_field (fst kv) ''challenge''))
              \<or> cd_Challenge ?cd = []"
    by (simp add: variant_lib_def names_field_def)
  have zero: "(\<exists>members. json_decode variant_lib (bytes_of create_empty_clientData)
                   = Some (JObject members)
                 \<and> (\<forall>kv \<in> set members. \<not> names_field (fst kv) ''challenge''))
              \<or> cd_Challenge ?cd = []"
    by simp
  have names: "\<not> names_field ''type'' ''challenge'' \<and> \<not> names_field ''origin'' ''challenge''"
    by (simp add: names_field_def)
  have data: "ParseAuthenticatorData variant_lib (rp_ID localhost_rp) chrome_authData
                = Inr chrome_credential"
    by (simp add: variant_authData authData_chrome localhost_rp_def)
  note bare = empty_challenge_passes [OF decode_create_bare none, where rp = localhost_rp
                and att = chrome_attestationObject]
  note empty = empty_challenge_passes [OF decode_create_empty zero, where rp = localhost_rp
                and att = chrome_attestationObject]
  from bare have eq: "Equal [] []" by simp
  from bare parse_chrome
  have obj: "VerifyAttestationObject variant_lib localhost_rp [] (bytes_of create_bare_clientData)
               chrome_attestationObject
             = Inr \<lparr> Format = ''packed'', AttestationStatement = chrome_attStmt,
                     AuthenticatorData = chrome_authData \<rparr>"
    by (simp add: localhost_rp_def)
  from bare parse_chrome data
  have att1: "VerifyAttestation variant_lib localhost_rp [] (bytes_of create_bare_clientData)
                chrome_attestationObject = Inr chrome_credential"
    by (simp add: localhost_rp_def)
  from empty parse_chrome data
  have att2: "VerifyAttestation variant_lib localhost_rp [] (bytes_of create_empty_clientData)
                chrome_attestationObject = Inr chrome_credential"
    by (simp add: localhost_rp_def)
  from decode_create_bare names eq obj att1 att2 bare_assertion show ?thesis by blast
qed

lemma store_members_append:
  "store_members cd (xs @ ys) =
     (case store_members cd xs of None \<Rightarrow> None | Some cd' \<Rightarrow> store_members cd' ys)"
  by (induction xs arbitrary: cd) (auto split: option.splits)

lemma store_member_type_commute:
  "names_field (fst kv) ''type'' \<longrightarrow> (\<forall>s. snd kv \<noteq> JString s) \<Longrightarrow>
     store_member (cd\<lparr>cd_Type := t\<rparr>) kv = map_option (\<lambda>c. c\<lparr>cd_Type := t\<rparr>) (store_member cd kv)"
  by (auto simp: store_member_def Let_def store_string_def store_bool_def map_option_case
           split: json.splits option.splits)

lemma store_members_type_commute:
  "\<forall>kv \<in> set kvs. names_field (fst kv) ''type'' \<longrightarrow> (\<forall>s. snd kv \<noteq> JString s) \<Longrightarrow>
     store_members (cd\<lparr>cd_Type := t\<rparr>) kvs
       = map_option (\<lambda>c. c\<lparr>cd_Type := t\<rparr>) (store_members cd kvs)"
proof (induction kvs arbitrary: cd)
  case Nil
  then show ?case by simp
next
  case (Cons kv kvs)
  then have kv: "names_field (fst kv) ''type'' \<longrightarrow> (\<forall>s. snd kv \<noteq> JString s)"
    and rest: "\<forall>kv \<in> set kvs. names_field (fst kv) ''type'' \<longrightarrow> (\<forall>s. snd kv \<noteq> JString s)"
    by simp_all
  show ?case
    by (cases "store_member cd kv")
       (simp_all add: store_member_type_commute [OF kv] Cons.IH [OF rest])
qed

lemma store_type_member:
  "names_field key ''type'' \<Longrightarrow> store_member cd (key, JString s) = Some (cd\<lparr>cd_Type := s\<rparr>)"
  by (simp add: store_member_def store_string_def)

lemma mutated_type_decodes:
  assumes "names_field key ''type''"
    and "\<forall>kv \<in> set post. names_field (fst kv) ''type'' \<longrightarrow> (\<forall>s. snd kv \<noteq> JString s)"
    and "store_members cd0 (pre @ (key, JString s) # post) = Some cd"
  shows "store_members cd0 (pre @ (key, JString t) # post) = Some (cd\<lparr>cd_Type := t\<rparr>)"
proof -
  from assms(3) obtain c1 where c1: "store_members cd0 pre = Some c1"
    and rest: "store_members (c1\<lparr>cd_Type := s\<rparr>) post = Some cd"
    by (auto simp: store_members_append store_type_member [OF assms(1)] split: option.splits)
  from rest obtain c2 where c2: "store_members c1 post = Some c2" and cd: "cd = c2\<lparr>cd_Type := s\<rparr>"
    by (auto simp: store_members_type_commute [OF assms(2)])
  show ?thesis
    by (simp add: store_members_append c1 store_type_member [OF assms(1)]
          store_members_type_commute [OF assms(2)] c2 cd)
qed

text \<open>
  Claim C7, as amended. Take a client data text that \<open>VerifyAttestation\<close> accepts, whose
  value is an object with a member naming the type field, of value \<open>"webauthn.create"\<close>,
  such that no later member gives the type field a string value (a later \<open>null\<close> leaves the
  field as it is). A text whose value is the same object with that one value replaced by
  any other string is rejected by \<open>VerifyAttestation\<close> and by \<open>VerifyAttestationObject\<close>
  with the "invalid client data type" error, of kind \<open>ClientDataTypeMismatch\<close>.
\<close>

theorem type_mutation_rejected:
  assumes "json_decode lib clientDataJSON
             = Some (JObject (pre @ (key, JString ''webauthn.create'') # post))"
    and "json_decode lib mutated = Some (JObject (pre @ (key, JString t) # post))"
    and "names_field key ''type''"
    and "\<forall>kv \<in> set post. names_field (fst kv) ''type'' \<longrightarrow> (\<forall>s. snd kv \<noteq> JString s)"
    and "t \<noteq> ''webauthn.create''"
    and "VerifyAttestation lib rp challenge clientDataJSON attestationObject = Inr ad"
  shows "VerifyAttestation lib rp challenge mutated attestationObject
           = Inl Err_invalid_client_data_type
       \<and> VerifyAttestationObject lib rp challenge mutated attestationObject
           = Inl Err_invalid_client_data_type
       \<and> kind Err_invalid_client_data_type = ClientDataTypeMismatch"
proof -
  from assms(6) obtain cd where cd: "json_Unmarshal lib clientDataJSON = Some cd"
    by (auto simp: VerifyAttestation_def split: option.splits)
  with assms(1) have "store_members zero_clientData (pre @ (key, JString ''webauthn.create'') # post)
                        = Some cd"
    by (simp add: json_Unmarshal_def)
  from mutated_type_decodes [OF assms(3) assms(4) this]
  have "json_Unmarshal lib mutated = Some (cd\<lparr>cd_Type := t\<rparr>)"
    using assms(2) by (simp add: json_Unmarshal_def)
  with assms(5) show ?thesis
    by (simp add: VerifyAttestation_def VerifyAttestationObject_def)
qed

lemma null_decoded:
  "json_decode variant_lib (bytes_of null_clientData) =
     Some (JObject ([] @ (''type'', JString ''webauthn.create'')
                      # [(''challenge'', JString ''8XJI5cQqW-VqtSPO7JIpUg''),
                         (''origin'', JString ''http://localhost:8080''),
                         (''type'', JNull)]))"
  by (simp add: variant_lib_def bytes_of_eq_iff variant_texts)

lemma null_mutated_decoded:
  "json_decode variant_lib (bytes_of null_mutated_clientData) =
     Some (JObject ([] @ (''type'', JString ''webauthn.get'')
                      # [(''challenge'', JString ''8XJI5cQqW-VqtSPO7JIpUg''),
                         (''origin'', JString ''http://localhost:8080''),
                         (''type'', JNull)]))"
  by (simp add: variant_lib_def bytes_of_eq_iff variant_texts)

lemma null_names:
  "names_field ''type'' ''type''"
  "\<forall>kv \<in> set [(''challenge'', JString ''8XJI5cQqW-VqtSPO7JIpUg''),
                 (''origin'', JString ''http://localhost:8080''),
                 (''type'', JNull)].
     names_field (fst kv) ''type'' \<longrightarrow> (\<forall>s. snd kv \<noteq> JString s)"
  by (simp_all add: names_field_def)

lemma null_attestation:
  "VerifyAttestation variant_lib localhost_rp chrome_challenge (bytes_of null_clientData)
     chrome_attestationObject = Inr chrome_credential"
  by (simp add: VerifyAttestation_def decode_null Equal_iff parse_chrome variant_authData
        authData_chrome localhost_rp_def)

theorem type_mutation_rejected_witness:
  "names_field ''type'' ''type''
   \<and> ''webauthn.get'' \<noteq> ''webauthn.create''
   \<and> VerifyAttestation variant_lib localhost_rp chrome_challenge (bytes_of null_clientData)
        chrome_attestationObject = Inr chrome_credential
   \<and> VerifyAttestation variant_lib localhost_rp chrome_challenge
        (bytes_of null_mutated_clientData) chrome_attestationObject
       = Inl Err_invalid_client_data_type
   \<and> VerifyAttestationObject variant_lib localhost_rp chrome_challenge
        (bytes_of null_mutated_clientData) chrome_attestationObject
       = Inl Err_invalid_client_data_type"
  using type_mutation_rejected [OF null_decoded null_mutated_decoded null_names _ null_attestation]
    null_attestation null_names(1)
  by simp

text \<open>
  Claim C7 as it was stated fails on a client data text with two type members, both of
  value \<open>"webauthn.create"\<close>: the text is accepted at attestation, and so is the same text
  with the value of the first type member changed to \<open>"webauthn.get"\<close>, since the later
  member overwrites the field.
\<close>

theorem type_mutation_counterexample:
  "json_decode variant_lib (bytes_of twice_clientData) =
     Some (JObject [(''type'', JString ''webauthn.create''),
                    (''type'', JString ''webauthn.create''),
                    (''challenge'', JString ''8XJI5cQqW-VqtSPO7JIpUg''),
                    (''origin'', JString ''http://localhost:8080'')])
   \<and> json_decode variant_lib (bytes_of twice_mutated_clientData) =
     Some (JObject [(''type'', JString ''webauthn.get''),
                    (''type'', JString ''webauthn.create''),
                    (''challenge'', JString ''8XJI5cQqW-VqtSPO7JIpUg''),
                    (''origin'', JString ''http://localhost:8080'')])
   \<and> VerifyAttestation variant_lib localhost_rp chrome_challenge (bytes_of twice_clientData)
        chrome_attestationObject = Inr chrome_credential
   \<and> VerifyAttestation variant_lib localhost_rp chrome_challenge
        (bytes_of twice_mutated_clientData) chrome_attestationObject = Inr chrome_credential
   \<and> VerifyAttestation variant_lib localhost_rp chrome_challenge
        (bytes_of twice_mutated_clientData) chrome_attestationObject
       \<noteq> Inl Err_invalid_client_data_type"
proof -
  have d1: "json_decode variant_lib (bytes_of twice_clientData) =
     Some (JObject [(''type'', JString ''webauthn.create''),
                    (''type'', JString ''webauthn.create''),
                    (''challenge'', JString ''8XJI5cQqW-VqtSPO7JIpUg''),
                    (''origin'', JString ''http://localhost:8080'')])"
    by (simp add: variant_lib_def bytes_of_eq_iff variant_texts)
  have d2: "json_decode variant_lib (bytes_of twice_mutated_clientData) =
     Some (JObject [(''type'', JString ''webauthn.get''),
                    (''type'', JString ''webauthn.create''),
                    (''challenge'', JString ''8XJI5cQqW-VqtSPO7JIpUg''),
                    (''origin'', JString ''http://localhost:8080'')])"
    by (simp add: variant_lib_def bytes_of_eq_iff variant_texts)
  have a1: "VerifyAttestation variant_lib localhost_rp chrome_challenge (bytes_of twice_clientData)
              chrome_attestationObject = Inr chrome_credential"
    by (simp add: VerifyAttestation_def decode_twice Equal_iff parse_chrome variant_authData
          authData_chrome localhost_rp_def)
  have a2: "VerifyAttestation variant_lib localhost_rp chrome_challenge
              (bytes_of twice_mutated_clientData) chrome_attestationObject = Inr chrome_credential"
    by (simp add: VerifyAttestation_def decode_twice_mutated Equal_iff parse_chrome
          variant_authData authData_chrome localhost_rp_def)
  from d1 d2 a1 a2 show ?thesis by simp
qed

section \<open>Properties of ParseAuthenticatorData\<close>





end
